theory Spec2Isabelle
  imports Complex_Main
begin

section \<open>Python values, exceptions and dictionary access\<close>

text \<open>
  The simulation passes loosely typed nested dictionaries between its models. A value is
  one of the shapes below; a dictionary is an association list in insertion order, read
  with \<open>map_of\<close>. Floats are idealised to reals, with NaN as a value of its own
  (\<open>np.nan\<close> is the aggregation's sentinel for missing data).
\<close>

datatype pyval =
    PNone
  | PInt int
  | PFloat real
  | PNaN
  | PStr string
  | PList "pyval list"
  | PDict "(string \<times> pyval) list"

datatype pyexn =
    KeyError
  | AttributeError
  | TypeError
  | NameError
  | IndexError
  | ValueError
  | ZeroDivisionError
  | OSError

definition bnd :: "pyexn + 'a \<Rightarrow> ('a \<Rightarrow> pyexn + 'b) \<Rightarrow> pyexn + 'b" where
  "bnd m f = (case m of Inl e \<Rightarrow> Inl e | Inr x \<Rightarrow> f x)"

text \<open>\<^verbatim>\<open>d.get(k, default)\<close>: only a dictionary has the method.\<close>

fun py_get :: "pyval \<Rightarrow> string \<Rightarrow> pyval \<Rightarrow> pyexn + pyval" where
  "py_get (PDict kvs) k d = Inr (case map_of kvs k of None \<Rightarrow> d | Some v \<Rightarrow> v)"
| "py_get _ k d = Inl AttributeError"

text \<open>\<^verbatim>\<open>d[k]\<close> with a string key.\<close>

fun py_item :: "pyval \<Rightarrow> string \<Rightarrow> pyexn + pyval" where
  "py_item (PDict kvs) k = (case map_of kvs k of None \<Rightarrow> Inl KeyError | Some v \<Rightarrow> Inr v)"
| "py_item _ k = Inl TypeError"

text \<open>\<^verbatim>\<open>isinstance(v, dict)\<close> and \<^verbatim>\<open>isinstance(v, (int, float))\<close>.\<close>

fun is_dict :: "pyval \<Rightarrow> bool" where
  "is_dict (PDict kvs) = True"
| "is_dict _ = False"

fun is_number :: "pyval \<Rightarrow> bool" where
  "is_number (PInt i) = True"
| "is_number (PFloat r) = True"
| "is_number PNaN = True"
| "is_number _ = False"

text \<open>Truth value of an object, as \<^verbatim>\<open>if x:\<close> tests it.\<close>

fun truthy :: "pyval \<Rightarrow> bool" where
  "truthy PNone = False"
| "truthy (PInt i) = (i \<noteq> 0)"
| "truthy (PFloat r) = (r \<noteq> 0)"
| "truthy PNaN = True"
| "truthy (PStr s) = (s \<noteq> [])"
| "truthy (PList xs) = (xs \<noteq> [])"
| "truthy (PDict kvs) = (kvs \<noteq> [])"

subsection \<open>Arithmetic\<close>

text \<open>
  A number is finite or NaN; NaN propagates through arithmetic and makes every comparison
  false. An operand that is not a number raises TypeError (the repetition of a sequence by
  an integer is not modelled). Float division by zero raises ZeroDivisionError.
\<close>

datatype num = Fin real | NaN

fun as_num :: "pyval \<Rightarrow> pyexn + num" where
  "as_num (PInt i) = Inr (Fin (of_int i))"
| "as_num (PFloat r) = Inr (Fin r)"
| "as_num PNaN = Inr NaN"
| "as_num _ = Inl TypeError"

fun of_num :: "num \<Rightarrow> pyval" where
  "of_num (Fin r) = PFloat r"
| "of_num NaN = PNaN"

fun nadd :: "num \<Rightarrow> num \<Rightarrow> num" where
  "nadd (Fin a) (Fin b) = Fin (a + b)"
| "nadd _ _ = NaN"

fun nsub :: "num \<Rightarrow> num \<Rightarrow> num" where
  "nsub (Fin a) (Fin b) = Fin (a - b)"
| "nsub _ _ = NaN"

fun nmul :: "num \<Rightarrow> num \<Rightarrow> num" where
  "nmul (Fin a) (Fin b) = Fin (a * b)"
| "nmul _ _ = NaN"

fun ndiv :: "num \<Rightarrow> num \<Rightarrow> pyexn + num" where
  "ndiv a (Fin b) =
     (if b = 0 then Inl ZeroDivisionError
      else Inr (case a of Fin x \<Rightarrow> Fin (x / b) | NaN \<Rightarrow> NaN))"
| "ndiv a NaN = Inr NaN"

fun ngt :: "num \<Rightarrow> num \<Rightarrow> bool" where
  "ngt (Fin a) (Fin b) = (a > b)"
| "ngt _ _ = False"

fun nlt :: "num \<Rightarrow> num \<Rightarrow> bool" where
  "nlt (Fin a) (Fin b) = (a < b)"
| "nlt _ _ = False"

text \<open>\<^verbatim>\<open>max(a, b)\<close> keeps its first argument unless the second is greater.\<close>

definition nmax :: "num \<Rightarrow> num \<Rightarrow> num" where
  "nmax a b = (if ngt b a then b else a)"

definition py_mul :: "pyval \<Rightarrow> pyval \<Rightarrow> pyexn + pyval" where
  "py_mul a b = bnd (as_num a) (\<lambda>x. bnd (as_num b) (\<lambda>y. Inr (of_num (nmul x y))))"

definition py_add :: "pyval \<Rightarrow> pyval \<Rightarrow> pyexn + pyval" where
  "py_add a b = bnd (as_num a) (\<lambda>x. bnd (as_num b) (\<lambda>y. Inr (of_num (nadd x y))))"

definition py_sub :: "pyval \<Rightarrow> pyval \<Rightarrow> pyexn + pyval" where
  "py_sub a b = bnd (as_num a) (\<lambda>x. bnd (as_num b) (\<lambda>y. Inr (of_num (nsub x y))))"

definition py_div :: "pyval \<Rightarrow> pyval \<Rightarrow> pyexn + pyval" where
  "py_div a b = bnd (as_num a) (\<lambda>x. bnd (as_num b) (\<lambda>y. bnd (ndiv x y) (\<lambda>q. Inr (of_num q))))"

definition py_gt :: "pyval \<Rightarrow> pyval \<Rightarrow> pyexn + bool" where
  "py_gt a b = bnd (as_num a) (\<lambda>x. bnd (as_num b) (\<lambda>y. Inr (ngt x y)))"

definition py_lt :: "pyval \<Rightarrow> pyval \<Rightarrow> pyexn + bool" where
  "py_lt a b = bnd (as_num a) (\<lambda>x. bnd (as_num b) (\<lambda>y. Inr (nlt x y)))"

text \<open>\<^verbatim>\<open>max(a, b)\<close> on objects: the result is one of the two objects.\<close>

definition py_max :: "pyval \<Rightarrow> pyval \<Rightarrow> pyexn + pyval" where
  "py_max a b = bnd (py_gt b a) (\<lambda>g. Inr (if g then b else a))"

text \<open>A comprehension over a list stops at the first element that raises.\<close>

fun map_raise :: "('a \<Rightarrow> pyexn + 'b) \<Rightarrow> 'a list \<Rightarrow> pyexn + 'b list" where
  "map_raise f [] = Inr []"
| "map_raise f (x # xs) = bnd (f x) (\<lambda>y. bnd (map_raise f xs) (\<lambda>ys. Inr (y # ys)))"

text \<open>\<^verbatim>\<open>d.items()\<close>.\<close>

fun py_items :: "pyval \<Rightarrow> pyexn + (string \<times> pyval) list" where
  "py_items (PDict kvs) = Inr kvs"
| "py_items _ = Inl AttributeError"

text \<open>\<^verbatim>\<open>x != 0\<close>: an object that is not a number differs from zero.\<close>

fun py_ne0 :: "pyval \<Rightarrow> bool" where
  "py_ne0 (PInt i) = (i \<noteq> 0)"
| "py_ne0 (PFloat r) = (r \<noteq> 0)"
| "py_ne0 _ = True"

text \<open>\<^verbatim>\<open>d[k] = v\<close> on a dictionary: an existing key keeps its place.\<close>

fun dict_set :: "string \<Rightarrow> 'a \<Rightarrow> (string \<times> 'a) list \<Rightarrow> (string \<times> 'a) list" where
  "dict_set k v [] = [(k, v)]"
| "dict_set k v ((k', v') # kvs) =
     (if k = k' then (k, v) # kvs else (k', v') # dict_set k v kvs)"

text \<open>
  \<^verbatim>\<open>v.get(k1, {}).get(k2, {}) ... .get(kn, d)\<close>: every step but the last
  defaults to an empty dictionary, the last to \<open>d\<close>.
\<close>

fun get_chain :: "pyval \<Rightarrow> string list \<Rightarrow> pyval \<Rightarrow> pyexn + pyval" where
  "get_chain v [] d = Inr v"
| "get_chain v [k] d = py_get v k d"
| "get_chain v (k # k' # ks) d = bnd (py_get v k (PDict [])) (\<lambda>v'. get_chain v' (k' # ks) d)"

section \<open>Socioeconomic dynamics model\<close>

text \<open>\<^verbatim>\<open>src/models/socioeconomic_dynamics.py\<close>. The model object holds its parameter groups.\<close>

record socio_model =
  population_params :: pyval
  economic_params :: pyval
  income_params :: pyval
  safety_net_params :: pyval
  livelihood_params :: pyval

definition SocioeconomicDynamicsModel :: "pyval \<Rightarrow> pyexn + socio_model" where
  "SocioeconomicDynamicsModel config =
     bnd (py_get config ''population_params'' (PDict [])) (\<lambda>pp.
     bnd (py_get config ''economic_params'' (PDict [])) (\<lambda>ep.
     bnd (py_get config ''income_params'' (PDict [])) (\<lambda>ip.
     bnd (py_get config ''safety_net_params'' (PDict [])) (\<lambda>sp.
     bnd (py_get config ''livelihood_params'' (PDict [])) (\<lambda>lp.
     Inr \<lparr>population_params = pp, economic_params = ep, income_params = ip,
          safety_net_params = sp, livelihood_params = lp\<rparr>)))))"

text \<open>
  The value read from the current state when it is a dictionary that holds the key with
  a number, the fallback otherwise (the \<^verbatim>\<open>isinstance\<close> ladder of the source).
\<close>

definition number_in :: "pyval \<Rightarrow> string \<Rightarrow> pyval \<Rightarrow> pyval" where
  "number_in d k fallback =
     (case d of
        PDict kvs \<Rightarrow>
          (case map_of kvs k of
             Some v \<Rightarrow> if is_number v then v else fallback
           | None \<Rightarrow> fallback)
      | _ \<Rightarrow> fallback)"

definition simulate_population_dynamics :: "socio_model \<Rightarrow> int \<Rightarrow> pyval \<Rightarrow> pyexn + pyval" where
  "simulate_population_dynamics m year current_population_data =
     bnd (py_get (population_params m) ''annual_growth_rate'' (PFloat (1 / 100)))
       (\<lambda>growth_rate.
     let last_pop = number_in current_population_data ''total_population'' (PFloat 170000000)
     in bnd (py_add (PInt 1) growth_rate) (\<lambda>factor.
        bnd (py_mul last_pop factor) (\<lambda>new_pop.
        bnd (py_mul new_pop (PFloat (4 / 10))) (\<lambda>urban.
        bnd (py_mul new_pop (PFloat (6 / 10))) (\<lambda>rural.
        Inr (PDict [(''total_population'', new_pop),
                    (''urban_population'', urban),
                    (''rural_population'', rural),
                    (''age_distribution'',
                       PDict [(''0-14'', PFloat (28 / 100)), (''15-64'', PFloat (67 / 100)),
                              (''65+'', PFloat (5 / 100))])]))))))"

definition simulate_economic_growth :: "socio_model \<Rightarrow> int \<Rightarrow> pyval \<Rightarrow> pyexn + pyval" where
  "simulate_economic_growth m year current_economic_data =
     bnd (py_get (economic_params m) ''gdp_growth_rate'' (PFloat (6 / 100)))
       (\<lambda>gdp_growth_rate.
     let last_gdp_pc = number_in current_economic_data ''gdp_per_capita'' (PInt 2200)
     in bnd (py_add (PInt 1) gdp_growth_rate) (\<lambda>factor.
        bnd (py_mul last_gdp_pc factor) (\<lambda>new_gdp_pc.
        bnd (py_get (economic_params m) ''inflation_rate'' (PFloat (55 / 1000))) (\<lambda>inflation.
        Inr (PDict [(''gdp_per_capita'', new_gdp_pc),
                    (''sectoral_contribution'',
                       PDict [(''agriculture'', PFloat (12 / 100)),
                              (''industry'', PFloat (35 / 100)),
                              (''services'', PFloat (53 / 100))]),
                    (''inflation_rate'', inflation)])))))"

definition simulate_income_distribution ::
  "socio_model \<Rightarrow> int \<Rightarrow> pyval \<Rightarrow> pyval \<Rightarrow> pyexn + pyval" where
  "simulate_income_distribution m year population_data economic_data =
     bnd (py_get (income_params m) ''gini_coefficient'' (PFloat (33 / 100)))
       (\<lambda>gini_coefficient.
     let gdp_per_capita =
           (case economic_data of
              PDict kvs \<Rightarrow>
                (case map_of kvs ''gdp_per_capita'' of
                   Some v \<Rightarrow> if is_number v then v else PInt 2200
                 | None \<Rightarrow> PInt 2200)
            | _ \<Rightarrow> PInt 2200)
     in bnd (py_sub gdp_per_capita (PInt 2200)) (\<lambda>d.
        bnd (py_div d (PInt 5000)) (\<lambda>q.
        bnd (py_sub (PFloat (25 / 100)) q) (\<lambda>x.
        bnd (py_max (PFloat (1 / 10)) x) (\<lambda>poverty_headcount.
        Inr (PDict [(''gini_coefficient'', gini_coefficient),
                    (''poverty_headcount_ratio'', poverty_headcount),
                    (''income_quintiles'',
                       PList [PFloat (8 / 100), PFloat (12 / 100), PFloat (16 / 100),
                              PFloat (22 / 100), PFloat (42 / 100)])]))))))"

definition simulate_social_safety_nets ::
  "socio_model \<Rightarrow> int \<Rightarrow> pyval \<Rightarrow> pyval \<Rightarrow> pyexn + pyval" where
  "simulate_social_safety_nets m year economic_data governance_factors =
     bnd (py_get (safety_net_params m) ''base_coverage'' (PFloat (25 / 100)))
       (\<lambda>base_coverage.
     bnd (py_get (safety_net_params m) ''effectiveness'' (PFloat (7 / 10))) (\<lambda>effectiveness.
     let policy_scaling =
           (case governance_factors of
              PDict kvs \<Rightarrow>
                (case map_of kvs ''safety_net_investment_scale'' of
                   Some v \<Rightarrow> if is_number v then v else PFloat 1
                 | None \<Rightarrow> PFloat 1)
            | _ \<Rightarrow> PFloat 1)
     in bnd (py_mul base_coverage policy_scaling) (\<lambda>coverage_rate.
        Inr (PDict [(''coverage_rate'', coverage_rate),
                    (''transfer_effectiveness'', effectiveness),
                    (''program_types'',
                       PList [PStr ''cash_transfer'', PStr ''food_assistance'',
                              PStr ''public_works''])]))))"

text \<open>
  The labour shift is looked for under three keys of the climate impacts, in the
  source's order; a value that is not a number counts as \<open>0.0\<close>.
\<close>

definition agri_labor_shift_of :: "pyval \<Rightarrow> pyval" where
  "agri_labor_shift_of climate_impacts =
     (let found =
        (case climate_impacts of
           PDict kvs \<Rightarrow>
             (case map_of kvs ''agri_labor_shift'' of
                Some v \<Rightarrow> v
              | None \<Rightarrow>
                 (case map_of kvs ''labor_impacts'' of
                    Some (PDict li) \<Rightarrow>
                      (case map_of li ''agri_labor_shift'' of Some v \<Rightarrow> v | None \<Rightarrow> PFloat 0)
                  | _ \<Rightarrow>
                     (case map_of kvs ''agricultural_impacts'' of
                        Some (PDict ai) \<Rightarrow>
                          (case map_of ai ''labor_shift'' of Some v \<Rightarrow> v | None \<Rightarrow> PFloat 0)
                      | _ \<Rightarrow> PFloat 0)))
         | _ \<Rightarrow> PFloat 0)
      in if is_number found then found else PFloat 0)"

definition simulate_livelihoods ::
  "socio_model \<Rightarrow> int \<Rightarrow> pyval \<Rightarrow> pyval \<Rightarrow> pyval \<Rightarrow> pyexn + pyval" where
  "simulate_livelihoods m year population_data economic_data climate_impacts =
     (let agri_labor_shift = agri_labor_shift_of climate_impacts;
          industry_share = PFloat (25 / 100)
      in bnd (py_sub (PFloat (40 / 100)) agri_labor_shift) (\<lambda>agri_share.
         bnd (py_add (PFloat (35 / 100)) agri_labor_shift) (\<lambda>services_share.
         bnd (py_add agri_share industry_share) (\<lambda>s1.
         bnd (py_add s1 services_share) (\<lambda>total_share.
         bnd (if py_ne0 total_share
              then bnd (py_div agri_share total_share) (\<lambda>a.
                   bnd (py_div industry_share total_share) (\<lambda>i.
                   bnd (py_div services_share total_share) (\<lambda>s. Inr (a, i, s))))
              else Inr (PFloat (1 / 3), PFloat (1 / 3), PFloat (1 / 3))) (\<lambda>(a, i, s).
         bnd (py_get (livelihood_params m) ''remittance_dependency'' (PFloat (1 / 10)))
           (\<lambda>remittances.
         Inr (PDict [(''livelihood_distribution'',
                        PDict [(''agriculture'', a), (''industry'', i), (''services'', s),
                               (''remittances_dependency'', remittances)]),
                     (''migration_patterns'',
                        PDict [(''rural_urban_rate'', PFloat (15 / 1000)),
                               (''international_rate'', PFloat (2 / 1000))])]))))))))"

text \<open>
  \<^verbatim>\<open>simulate_socioeconomic_factors\<close>. The scenario runner never loads historical
  data into this model, so \<^verbatim>\<open>self.historical_socioeconomic_data\<close> is the empty
  dictionary of \<^verbatim>\<open>__init__\<close> and both fallbacks are \<^verbatim>\<open>{}\<close>.
\<close>

definition socio_simulate ::
  "socio_model \<Rightarrow> int \<Rightarrow> pyval \<Rightarrow> pyval \<Rightarrow> pyval \<Rightarrow> pyexn + pyval" where
  "socio_simulate m year current_state governance_factors climate_impacts =
     (let current_state = (if is_dict current_state then current_state else PDict []);
          governance_factors =
            (if is_dict governance_factors then governance_factors else PDict []);
          climate_impacts = (if is_dict climate_impacts then climate_impacts else PDict [])
      in bnd (py_get current_state ''population'' (PDict [])) (\<lambda>pop_data.
         bnd (py_get current_state ''economy'' (PDict [])) (\<lambda>econ_data.
         bnd (simulate_population_dynamics m year pop_data) (\<lambda>population_results.
         bnd (simulate_economic_growth m year econ_data) (\<lambda>economic_results.
         bnd (simulate_income_distribution m year population_results economic_results)
           (\<lambda>income_results.
         bnd (simulate_social_safety_nets m year economic_results governance_factors)
           (\<lambda>safety_net_results.
         bnd (simulate_livelihoods m year population_results economic_results climate_impacts)
           (\<lambda>livelihood_results.
         Inr (PDict [(''year'', PInt year),
                     (''population'', population_results),
                     (''economy'', economic_results),
                     (''income_distribution'', income_results),
                     (''social_safety_nets'', safety_net_results),
                     (''livelihoods'', livelihood_results)])))))))))"

section \<open>Nutritional outcomes model\<close>

text \<open>
  \<^verbatim>\<open>src/models/nutritional_outcomes.py\<close>. The historical data of the model is a
  dictionary of pandas data frames, each a list of named columns; it is empty after
  \<^verbatim>\<open>__init__\<close> and holds three frames after \<^verbatim>\<open>load_historical_data\<close>.
\<close>

datatype frame = Frame "(string \<times> real list) list"

record nutrition_model =
  dietary_params :: pyval
  status_params :: pyval
  micronutrient_params :: pyval
  health_access_params :: pyval
  historical_nutrition_data :: "(string \<times> frame) list"

definition food_composition :: "(string \<times> (string \<times> real) list) list" where
  "food_composition =
     [(''rice'', [(''energy_kcal'', 360), (''protein_g'', 7), (''iron_mg'', 8 / 10),
                  (''zinc_mg'', 11 / 10)]),
      (''wheat'', [(''energy_kcal'', 340), (''protein_g'', 12), (''iron_mg'', 35 / 10),
                   (''zinc_mg'', 27 / 10)]),
      (''pulses'', [(''energy_kcal'', 345), (''protein_g'', 22), (''iron_mg'', 6),
                    (''zinc_mg'', 3)]),
      (''vegetables'', [(''energy_kcal'', 30), (''protein_g'', 15 / 10), (''iron_mg'', 1),
                        (''zinc_mg'', 3 / 10), (''vitA_mcg'', 300)]),
      (''milk'', [(''energy_kcal'', 60), (''protein_g'', 33 / 10), (''calcium_mg'', 120)]),
      (''eggs'', [(''energy_kcal'', 145), (''protein_g'', 125 / 10), (''iron_mg'', 18 / 10),
                  (''vitA_mcg'', 140)]),
      (''fish'', [(''energy_kcal'', 110), (''protein_g'', 20), (''zinc_mg'', 6 / 10),
                  (''omega3_g'', 1)]),
      (''meat'', [(''energy_kcal'', 200), (''protein_g'', 25), (''iron_mg'', 25 / 10),
                  (''zinc_mg'', 4)])]"

definition NutritionalOutcomesModel :: "pyval \<Rightarrow> pyexn + nutrition_model" where
  "NutritionalOutcomesModel config =
     bnd (py_get config ''dietary_params'' (PDict [])) (\<lambda>dp.
     bnd (py_get config ''status_params'' (PDict [])) (\<lambda>sp.
     bnd (py_get config ''micronutrient_params'' (PDict [])) (\<lambda>mp.
     bnd (py_get config ''health_access_params'' (PDict [])) (\<lambda>hp.
     Inr \<lparr>dietary_params = dp, status_params = sp, micronutrient_params = mp,
          health_access_params = hp, historical_nutrition_data = []\<rparr>))))"

definition load_historical_data :: "nutrition_model \<Rightarrow> nutrition_model" where
  "load_historical_data m =
     m\<lparr>historical_nutrition_data :=
         [(''stunting_prevalence'',
             Frame [(''year'', [2020, 2021, 2022]), (''rate'', [31 / 100, 30 / 100, 29 / 100])]),
          (''wasting_prevalence'',
             Frame [(''year'', [2020, 2021, 2022]), (''rate'', [8 / 100, 8 / 100, 75 / 1000])]),
          (''anemia_prevalence'',
             Frame [(''year'', [2020, 2021, 2022]),
                    (''rate'', [40 / 100, 39 / 100, 38 / 100])])]\<rparr>"

definition estimate_food_consumption ::
  "nutrition_model \<Rightarrow> int \<Rightarrow> pyval \<Rightarrow> pyval \<Rightarrow> pyval \<Rightarrow> pyexn + pyval" where
  "estimate_food_consumption m year food_availability market_prices income_levels =
     bnd (py_items food_availability) (\<lambda>items.
     bnd (map_raise (\<lambda>(food_group, available_qty).
            bnd (py_get (dietary_params m) (food_group @ ''_consumption_ratio'')
                   (PFloat (9 / 10))) (\<lambda>consumption_ratio.
            bnd (py_mul available_qty consumption_ratio) (\<lambda>c. Inr (food_group, c)))) items)
       (\<lambda>consumption. Inr (PDict consumption)))"

text \<open>
  The inner loop of \<^verbatim>\<open>_calculate_nutrient_intake\<close>: each nutrient of the food that
  \<^verbatim>\<open>total_intake\<close> tracks is increased by the quantity per 100 g times its content.
\<close>

fun add_nutrients ::
  "pyval \<Rightarrow> (string \<times> real) list \<Rightarrow> (string \<times> pyval) list \<Rightarrow> pyexn + (string \<times> pyval) list"
  where
  "add_nutrients qty_per_100g [] total_intake = Inr total_intake"
| "add_nutrients qty_per_100g ((nutrient, value_per_100g) # composition) total_intake =
     (case map_of total_intake nutrient of
        None \<Rightarrow> add_nutrients qty_per_100g composition total_intake
      | Some t \<Rightarrow>
          bnd (py_mul qty_per_100g (PFloat value_per_100g)) (\<lambda>x.
          bnd (py_add t x) (\<lambda>t'.
          add_nutrients qty_per_100g composition (dict_set nutrient t' total_intake))))"

fun intake_loop ::
  "(string \<times> pyval) list \<Rightarrow> (string \<times> pyval) list \<Rightarrow> pyexn + (string \<times> pyval) list" where
  "intake_loop [] total_intake = Inr total_intake"
| "intake_loop ((food, qty_kg_per_cap_yr) # rest) total_intake =
     (case map_of food_composition food of
        None \<Rightarrow> intake_loop rest total_intake
      | Some composition \<Rightarrow>
          bnd (py_mul qty_kg_per_cap_yr (PFloat (1000 / 365))) (\<lambda>qty_g_per_cap_day.
          bnd (py_div qty_g_per_cap_day (PFloat 100)) (\<lambda>qty_per_100g.
          bnd (add_nutrients qty_per_100g composition total_intake) (\<lambda>total_intake'.
          intake_loop rest total_intake'))))"

definition calculate_nutrient_intake :: "int \<Rightarrow> pyval \<Rightarrow> pyexn + pyval" where
  "calculate_nutrient_intake year food_consumption =
     bnd (py_items food_consumption) (\<lambda>items.
     bnd (intake_loop items
            [(''energy_kcal'', PInt 0), (''protein_g'', PInt 0), (''iron_mg'', PInt 0),
             (''zinc_mg'', PInt 0), (''vitA_mcg'', PInt 0), (''calcium_mg'', PInt 0)])
       (\<lambda>total_intake. Inr (PDict total_intake)))"

text \<open>
  \<^verbatim>\<open>self.historical_nutrition_data.get(key, {}).get('rate', [default])[-1]\<close>.
  Without a frame under the key the chain ends in the one-element list and yields the
  default. With a frame, \<^verbatim>\<open>DataFrame.get('rate', ...)\<close> is the column as a pandas
  Series under the default RangeIndex, for which an integer key is a label: \<open>-1\<close> is no
  label of \<open>0, 1, ..., n - 1\<close> and the subscript raises KeyError. A frame without the
  column gives the default list again.
\<close>

definition previous_rate :: "nutrition_model \<Rightarrow> string \<Rightarrow> real \<Rightarrow> pyexn + pyval" where
  "previous_rate m key default_rate =
     (case map_of (historical_nutrition_data m) key of
        None \<Rightarrow> Inr (PFloat default_rate)
      | Some (Frame columns) \<Rightarrow>
          (case map_of columns ''rate'' of
             None \<Rightarrow> Inr (PFloat default_rate)
           | Some rates \<Rightarrow> Inl KeyError))"

text \<open>The yearly change of each indicator, from the adequacy of the intake.\<close>

definition stunting_change :: "bool \<Rightarrow> bool \<Rightarrow> pyval" where
  "stunting_change energy_adequate protein_adequate =
     (if energy_adequate \<and> protein_adequate then PFloat (- 5 / 1000) else PFloat (2 / 1000))"

definition wasting_change :: "bool \<Rightarrow> pyval" where
  "wasting_change energy_adequate =
     (if energy_adequate then PFloat (- 3 / 1000) else PFloat (1 / 1000))"

definition anemia_change :: "bool \<Rightarrow> pyval" where
  "anemia_change iron_adequate =
     (if iron_adequate then PFloat (- 1 / 100) else PFloat (5 / 1000))"

text \<open>
  \<^verbatim>\<open>1.0 - self.health_access_params.get('coverage', 0.5) * 0.1\<close>
\<close>

definition health_access_modifier :: "nutrition_model \<Rightarrow> pyexn + pyval" where
  "health_access_modifier m =
     bnd (py_get (health_access_params m) ''coverage'' (PFloat (1 / 2))) (\<lambda>coverage.
     bnd (py_mul coverage (PFloat (1 / 10))) (\<lambda>c. py_sub (PFloat 1) c))"

text \<open>\<^verbatim>\<open>max(0, prev + change * health_access_modifier)\<close>\<close>

definition floored_update :: "pyval \<Rightarrow> pyval \<Rightarrow> pyval \<Rightarrow> pyexn + pyval" where
  "floored_update prev change modifier =
     bnd (py_mul change modifier) (\<lambda>delta.
     bnd (py_add prev delta) (\<lambda>x. py_max (PInt 0) x))"

definition default_status :: pyval where
  "default_status =
     PDict [(''stunting_prevalence'', PFloat (28 / 100)),
            (''wasting_prevalence'', PFloat (7 / 100)),
            (''underweight_prevalence'', PFloat (15 / 100)),
            (''micronutrient_deficiency'',
               PDict [(''ida_prevalence'', PFloat (37 / 100)),
                      (''vad_prevalence'', PFloat (20 / 100)),
                      (''znd_prevalence'', PFloat (30 / 100))])]"

text \<open>The \<^verbatim>\<open>try\<close> block of \<^verbatim>\<open>_estimate_nutritional_status\<close>.\<close>

definition estimate_nutritional_status_body ::
  "nutrition_model \<Rightarrow> int \<Rightarrow> pyval \<Rightarrow> pyexn + pyval" where
  "estimate_nutritional_status_body m year nutrient_intake =
     bnd (previous_rate m ''stunting_prevalence'' (28 / 100)) (\<lambda>prev_stunting.
     bnd (previous_rate m ''wasting_prevalence'' (7 / 100)) (\<lambda>prev_wasting.
     bnd (previous_rate m ''anemia_prevalence'' (37 / 100)) (\<lambda>prev_anemia.
     bnd (py_get nutrient_intake ''energy_kcal'' (PInt 0)) (\<lambda>energy.
     bnd (py_gt energy (PInt 2100)) (\<lambda>energy_adequate.
     bnd (py_get nutrient_intake ''protein_g'' (PInt 0)) (\<lambda>protein.
     bnd (py_gt protein (PInt 50)) (\<lambda>protein_adequate.
     bnd (py_get nutrient_intake ''iron_mg'' (PInt 0)) (\<lambda>iron.
     bnd (py_gt iron (PInt 10)) (\<lambda>iron_adequate.
     bnd (health_access_modifier m) (\<lambda>modifier.
     bnd (floored_update prev_stunting (stunting_change energy_adequate protein_adequate)
            modifier) (\<lambda>new_stunting.
     bnd (floored_update prev_wasting (wasting_change energy_adequate) modifier)
       (\<lambda>new_wasting.
     bnd (floored_update prev_anemia (anemia_change iron_adequate) modifier) (\<lambda>new_anemia.
     bnd (py_add new_stunting new_wasting) (\<lambda>s.
     bnd (py_div s (PInt 2)) (\<lambda>underweight.
     Inr (PDict [(''stunting_prevalence'', new_stunting),
                 (''wasting_prevalence'', new_wasting),
                 (''underweight_prevalence'', underweight),
                 (''micronutrient_deficiency'',
                    PDict [(''ida_prevalence'', new_anemia),
                           (''vad_prevalence'', PFloat (20 / 100)),
                           (''znd_prevalence'', PFloat (30 / 100))])]))))))))))))))))"

text \<open>
  \<^verbatim>\<open>_estimate_nutritional_status\<close>: any exception of the block gives the default
  values instead.
\<close>

definition estimate_nutritional_status ::
  "nutrition_model \<Rightarrow> int \<Rightarrow> pyval \<Rightarrow> pyval \<Rightarrow> pyval \<Rightarrow> pyval" where
  "estimate_nutritional_status m year nutrient_intake health_factors socioecon_factors =
     (case estimate_nutritional_status_body m year nutrient_intake of
        Inl e \<Rightarrow> default_status
      | Inr status \<Rightarrow> status)"

definition default_food_availability :: pyval where
  "default_food_availability =
     PDict [(''rice'', PInt 150), (''wheat'', PInt 20), (''pulses'', PInt 8),
            (''vegetables'', PInt 60), (''milk'', PInt 30), (''eggs'', PInt 5),
            (''fish'', PInt 25), (''meat'', PInt 10)]"

definition default_outcomes :: "int \<Rightarrow> pyval" where
  "default_outcomes year =
     PDict [(''year'', PInt year),
            (''estimated_per_capita_consumption_kg'',
               PDict [(''rice'', PInt 142), (''wheat'', PInt 19), (''pulses'', PInt 8),
                      (''vegetables'', PInt 57), (''milk'', PInt 28), (''eggs'', PInt 5),
                      (''fish'', PInt 24), (''meat'', PInt 9)]),
            (''average_nutrient_intake_per_capita_day'',
               PDict [(''energy_kcal'', PInt 2200), (''protein_g'', PInt 55),
                      (''iron_mg'', PInt 12), (''zinc_mg'', PInt 8),
                      (''vitA_mcg'', PInt 600), (''calcium_mg'', PInt 700)]),
            (''nutritional_status_indicators'', default_status)]"

text \<open>The \<^verbatim>\<open>try\<close> block of \<^verbatim>\<open>simulate_nutritional_outcomes\<close>.\<close>

definition nutrition_simulate_body ::
  "nutrition_model \<Rightarrow> int \<Rightarrow> pyval \<Rightarrow> pyval \<Rightarrow> pyval \<Rightarrow> pyval \<Rightarrow> pyexn + pyval" where
  "nutrition_simulate_body m year food_availability market_prices socioeconomic_state
      health_state =
     bnd (py_get socioeconomic_state ''income_distribution'' (PDict [])) (\<lambda>income_levels.
     bnd (estimate_food_consumption m year food_availability market_prices income_levels)
       (\<lambda>consumption_per_capita.
     bnd (calculate_nutrient_intake year consumption_per_capita) (\<lambda>nutrient_intake.
     Inr (PDict [(''year'', PInt year),
                 (''estimated_per_capita_consumption_kg'', consumption_per_capita),
                 (''average_nutrient_intake_per_capita_day'', nutrient_intake),
                 (''nutritional_status_indicators'',
                    estimate_nutritional_status m year nutrient_intake health_state
                      socioeconomic_state)]))))"

text \<open>
  \<^verbatim>\<open>simulate_nutritional_outcomes\<close>: \<^verbatim>\<open>None\<close> inputs become empty dictionaries,
  an empty food availability is replaced by default quantities, and any exception of the
  block gives the default outcomes.
\<close>

definition nutrition_simulate ::
  "nutrition_model \<Rightarrow> int \<Rightarrow> pyval \<Rightarrow> pyval \<Rightarrow> pyval \<Rightarrow> pyval \<Rightarrow> pyval" where
  "nutrition_simulate m year food_availability market_prices socioeconomic_state health_state =
     (let food_availability = (if food_availability = PNone then PDict [] else food_availability);
          market_prices = (if market_prices = PNone then PDict [] else market_prices);
          food_availability =
            (if \<not> truthy food_availability then default_food_availability
             else food_availability)
      in case nutrition_simulate_body m year food_availability market_prices
                socioeconomic_state health_state of
           Inl e \<Rightarrow> default_outcomes year
         | Inr outcomes \<Rightarrow> outcomes)"

section \<open>Market dynamics model\<close>

text \<open>\<^verbatim>\<open>src/models/market_dynamics.py\<close>\<close>

record market_model =
  supply_params :: pyval
  demand_params :: pyval
  price_params :: pyval
  trade_params :: pyval

definition MarketDynamicsModel :: "pyval \<Rightarrow> pyexn + market_model" where
  "MarketDynamicsModel config =
     bnd (py_get config ''supply_params'' (PDict [])) (\<lambda>sp.
     bnd (py_get config ''demand_params'' (PDict [])) (\<lambda>dp.
     bnd (py_get config ''price_params'' (PDict [])) (\<lambda>pp.
     bnd (py_get config ''trade_params'' (PDict [])) (\<lambda>tp.
     Inr \<lparr>supply_params = sp, demand_params = dp, price_params = pp, trade_params = tp\<rparr>))))"

definition commodities :: "string list" where
  "commodities =
     [''rice'', ''wheat'', ''pulses'', ''vegetables'', ''fish'', ''meat'', ''milk'', ''eggs'']"

text \<open>
  \<^verbatim>\<open>production_data.get('total_food',{}).get(...) ... * export_mod\<close>, one
  commodity of \<^verbatim>\<open>_simulate_supply\<close>.
\<close>

definition supply_of :: "pyval \<Rightarrow> string list \<Rightarrow> pyval \<Rightarrow> pyexn + pyval" where
  "supply_of production_data path export_mod =
     bnd (get_chain production_data (''total_food'' # path) (PInt 0)) (\<lambda>q. py_mul q export_mod)"

definition simulate_supply :: "market_model \<Rightarrow> int \<Rightarrow> pyval \<Rightarrow> pyval \<Rightarrow> pyexn + pyval" where
  "simulate_supply m year production_data policy_effects =
     bnd (get_chain production_data [''total_food'', ''cereals'', ''rice''] (PInt 0))
       (\<lambda>total_rice.
     bnd (get_chain policy_effects [''trade_policy_effects'', ''export_volume_modifier'']
            (PFloat 1)) (\<lambda>export_mod.
     bnd (py_mul total_rice export_mod) (\<lambda>rice.
     bnd (supply_of production_data [''cereals'', ''wheat''] export_mod) (\<lambda>wheat.
     bnd (supply_of production_data [''pulses''] export_mod) (\<lambda>pulses.
     bnd (supply_of production_data [''fish'', ''total''] export_mod) (\<lambda>fish.
     bnd (get_chain production_data [''total_food'', ''meat'', ''beef_mutton''] (PInt 0))
       (\<lambda>beef_mutton.
     bnd (supply_of production_data [''meat'', ''poultry''] export_mod) (\<lambda>poultry.
     bnd (py_add beef_mutton poultry) (\<lambda>meat.
     bnd (supply_of production_data [''other_livestock'', ''milk''] export_mod) (\<lambda>milk.
     bnd (supply_of production_data [''other_livestock'', ''eggs''] export_mod) (\<lambda>eggs.
     Inr (PDict [(''rice'', rice), (''wheat'', wheat), (''pulses'', pulses), (''fish'', fish),
                 (''meat'', meat), (''milk'', milk), (''eggs'', eggs)]))))))))))))"

definition base_demand_per_cap :: "(string \<times> pyval) list" where
  "base_demand_per_cap =
     [(''rice'', PInt 150), (''wheat'', PInt 25), (''pulses'', PInt 8),
      (''vegetables'', PInt 65), (''fish'', PInt 25), (''meat'', PInt 12),
      (''milk'', PInt 35), (''eggs'', PInt 6)]"

text \<open>The body of the loop of \<^verbatim>\<open>_simulate_demand\<close> for one commodity.\<close>

definition demand_of ::
  "market_model \<Rightarrow> pyval \<Rightarrow> pyval \<Rightarrow> pyval \<Rightarrow> string \<times> pyval \<Rightarrow> pyexn + string \<times> pyval"
  where
  "demand_of m population gdp_pc policy_effects cb =
     bnd (py_get (demand_params m) (fst cb @ ''_income_elasticity'') (PFloat (1 / 2)))
       (\<lambda>income_elasticity.
     bnd (py_sub gdp_pc (PInt 2000)) (\<lambda>d.
     bnd (py_div d (PInt 2000)) (\<lambda>rel.
     bnd (py_mul income_elasticity rel) (\<lambda>ie.
     bnd (py_add (PInt 1) ie) (\<lambda>income_effect.
     bnd (get_chain policy_effects [''social_protection_effects'', ''transfer_value_modifier'']
            (PFloat 1)) (\<lambda>transfer.
     bnd (py_mul transfer (PFloat (1 / 10))) (\<lambda>t.
     bnd (py_add t (PFloat (9 / 10))) (\<lambda>demand_mod.
     bnd (py_mul (snd cb) income_effect) (\<lambda>x.
     bnd (py_mul x population) (\<lambda>y.
     bnd (py_mul y demand_mod) (\<lambda>demand. Inr (fst cb, demand))))))))))))"

definition simulate_demand :: "market_model \<Rightarrow> int \<Rightarrow> pyval \<Rightarrow> pyval \<Rightarrow> pyexn + pyval" where
  "simulate_demand m year socioeconomic_state policy_effects =
     bnd (get_chain socioeconomic_state [''population'', ''total_population'']
            (PFloat 170000000)) (\<lambda>population.
     bnd (get_chain socioeconomic_state [''economy'', ''gdp_per_capita''] (PInt 2200))
       (\<lambda>gdp_pc.
     bnd (map_raise (demand_of m population gdp_pc policy_effects) base_demand_per_cap)
       (\<lambda>market_demand. Inr (PDict market_demand))))"

definition base_prices :: "(string \<times> pyval) list" where
  "base_prices =
     [(''rice'', PInt 50), (''wheat'', PInt 40), (''pulses'', PInt 100),
      (''vegetables'', PInt 40), (''fish'', PInt 250), (''meat'', PInt 600),
      (''milk'', PInt 80), (''eggs'', PInt 120)]"

text \<open>The body of the loop of \<^verbatim>\<open>_simulate_price_formation\<close> for one commodity.\<close>

definition price_of ::
  "market_model \<Rightarrow> pyval \<Rightarrow> pyval \<Rightarrow> pyval \<Rightarrow> string \<Rightarrow> pyexn + string \<times> pyval" where
  "price_of m market_supply market_demand policy_effects commodity =
     bnd (py_get market_supply commodity (PFloat (1 / 1000000))) (\<lambda>supply.
     bnd (py_get market_demand commodity (PFloat (1 / 1000000))) (\<lambda>demand.
     bnd (py_get (PDict base_prices) commodity (PInt 50)) (\<lambda>base_price.
     bnd (py_add supply demand) (\<lambda>total.
     bnd (py_gt total (PInt 0)) (\<lambda>positive.
     bnd (if positive
          then bnd (py_sub demand supply) (\<lambda>gap.
               bnd (py_div total (PInt 2)) (\<lambda>mean. py_div gap mean))
          else Inr (PInt 0)) (\<lambda>gap_ratio.
     bnd (py_get (price_params m) (commodity @ ''_elasticity_factor'') (PFloat (- 1 / 2)))
       (\<lambda>price_elasticity_factor.
     bnd (if py_ne0 price_elasticity_factor
          then bnd (py_div gap_ratio price_elasticity_factor) (\<lambda>q. py_add (PInt 1) q)
          else Inr (PFloat 1)) (\<lambda>price_change_factor.
     bnd (get_chain policy_effects [''trade_policy_effects'', ''import_price_modifier'']
            (PFloat 1)) (\<lambda>trade_price_mod.
     bnd (py_mul base_price price_change_factor) (\<lambda>x.
     bnd (py_mul x trade_price_mod) (\<lambda>price.
     bnd (py_max price (PFloat 1)) (\<lambda>floored. Inr (commodity, floored)))))))))))))"

definition simulate_price_formation ::
  "market_model \<Rightarrow> int \<Rightarrow> pyval \<Rightarrow> pyval \<Rightarrow> pyval \<Rightarrow> pyval \<Rightarrow> pyexn + pyval" where
  "simulate_price_formation m year market_supply market_demand policy_effects trade =
     bnd (map_raise (price_of m market_supply market_demand policy_effects) commodities)
       (\<lambda>prices.
     bnd (map_raise (\<lambda>(c, p).
            bnd (py_get (price_params m) ''wholesale_retail_margin'' (PFloat (85 / 100)))
              (\<lambda>margin. bnd (py_mul p margin) (\<lambda>w. Inr (c, w)))) prices) (\<lambda>wholesale.
     bnd (map_raise (\<lambda>(c, p).
            bnd (py_get (price_params m) ''producer_wholesale_margin'' (PFloat (7 / 10)))
              (\<lambda>margin. bnd (py_mul p margin) (\<lambda>w. Inr (c, w)))) wholesale) (\<lambda>producer.
     Inr (PDict [(''retail'', PDict prices), (''wholesale'', PDict wholesale),
                 (''producer'', PDict producer)]))))"

text \<open>
  The body of the loop of \<^verbatim>\<open>_simulate_trade_flows\<close> for one commodity. The two
  branches read \<^verbatim>\<open>market_demand\<close> and \<^verbatim>\<open>market_supply\<close>, which are neither
  parameters nor locals of the method nor names of the module: once the propensity has
  been computed, evaluating the name raises NameError. A commodity for which neither
  branch is taken leaves the flows as they are.
\<close>

definition trade_flow_of :: "pyval \<Rightarrow> pyval \<Rightarrow> pyval \<Rightarrow> string \<Rightarrow> pyexn + unit" where
  "trade_flow_of domestic_prices world_prices trade_policies commodity =
     bnd (get_chain domestic_prices [''producer'', commodity] (PInt 0)) (\<lambda>domestic_price.
     bnd (if is_dict world_prices then Inr () else Inl AttributeError) (\<lambda>_.
     bnd (py_mul domestic_price (PFloat (12 / 10))) (\<lambda>fallback.
     bnd (py_get world_prices commodity fallback) (\<lambda>world_price.
     bnd (py_get trade_policies ''import_tariff_rate'' (PInt 0)) (\<lambda>tariff.
     bnd (py_mul tariff world_price) (\<lambda>t.
     bnd (py_get trade_policies ''import_transport_cost'' (PInt 5)) (\<lambda>import_transport.
     bnd (py_add t import_transport) (\<lambda>import_cost.
     bnd (py_get trade_policies ''export_subsidy_rate'' (PInt 0)) (\<lambda>subsidy.
     bnd (py_mul subsidy domestic_price) (\<lambda>s.
     bnd (py_get trade_policies ''export_transport_cost'' (PInt 6)) (\<lambda>export_transport.
     bnd (py_add s export_transport) (\<lambda>export_cost.
     bnd (py_add world_price import_cost) (\<lambda>landed.
     bnd (py_lt landed domestic_price) (\<lambda>import_case.
     if import_case
     then bnd (py_sub domestic_price landed) (\<lambda>gap.
          bnd (py_div gap domestic_price) (\<lambda>import_propensity. Inl NameError))
     else
       bnd (py_sub world_price export_cost) (\<lambda>net.
       bnd (py_lt domestic_price net) (\<lambda>export_case.
       if export_case
       then bnd (py_sub net domestic_price) (\<lambda>gap.
            bnd (py_div gap domestic_price) (\<lambda>export_propensity.
            bnd (py_get trade_policies ''export_restriction_level'' (PInt 0))
              (\<lambda>export_restriction. Inl NameError)))
       else Inr ()))))))))))))))))"

definition simulate_trade_flows ::
  "int \<Rightarrow> pyval \<Rightarrow> pyval \<Rightarrow> pyval \<Rightarrow> pyexn + pyval" where
  "simulate_trade_flows year domestic_prices world_prices trade_policies =
     bnd (map_raise (trade_flow_of domestic_prices world_prices trade_policies) commodities)
       (\<lambda>_. Inr (PDict [(''imports'', PDict []), (''exports'', PDict [])]))"

text \<open>\<^verbatim>\<open>simulate_market_dynamics\<close>\<close>

definition market_simulate ::
  "market_model \<Rightarrow> int \<Rightarrow> pyval \<Rightarrow> pyval \<Rightarrow> pyval \<Rightarrow> pyexn + pyval" where
  "market_simulate m year production_data socioeconomic_state policy_effects =
     bnd (simulate_supply m year production_data policy_effects) (\<lambda>market_supply.
     bnd (simulate_demand m year socioeconomic_state policy_effects) (\<lambda>market_demand.
     bnd (simulate_price_formation m year market_supply market_demand policy_effects
            (trade_params m)) (\<lambda>market_prices.
     bnd (py_get (trade_params m) ''world_prices'' (PDict [])) (\<lambda>world_prices.
     bnd (py_get policy_effects ''trade_policy_effects'' (PDict [])) (\<lambda>trade_policies.
     bnd (simulate_trade_flows year market_prices world_prices trade_policies)
       (\<lambda>trade_flows.
     Inr (PDict [(''year'', PInt year),
                 (''market_supply'', market_supply),
                 (''market_demand'', market_demand),
                 (''prices'', market_prices),
                 (''trade_flows'', trade_flows)])))))))"

section \<open>The year-step orchestrator and the scenario runner\<close>

text \<open>
  The seven domain models of \<^verbatim>\<open>run_full_simulation.py\<close>. Their classes assign
  attributes only in \<^verbatim>\<open>__init__\<close> and \<^verbatim>\<open>load_historical_data\<close>, so a
  stepping method is a function of its arguments; it returns its output or raises.
\<close>

record models =
  simulate_policy_impacts :: "int \<Rightarrow> string \<Rightarrow> pyval \<Rightarrow> pyexn + pyval"
  simulate_climate_resilience :: "int \<Rightarrow> pyval \<Rightarrow> pyval \<Rightarrow> pyval \<Rightarrow> pyexn + pyval"
  simulate_socioeconomic_factors :: "int \<Rightarrow> pyval \<Rightarrow> pyval \<Rightarrow> pyval \<Rightarrow> pyexn + pyval"
  simulate_production :: "int \<Rightarrow> pyval \<Rightarrow> pyval \<Rightarrow> pyval \<Rightarrow> pyval \<Rightarrow> pyexn + pyval"
  simulate_supply_chains :: "int \<Rightarrow> pyval \<Rightarrow> pyexn + pyval"
  simulate_market_dynamics :: "int \<Rightarrow> pyval \<Rightarrow> pyval \<Rightarrow> pyval \<Rightarrow> pyexn + pyval"
  simulate_nutritional_outcomes :: "int \<Rightarrow> pyval \<Rightarrow> pyval \<Rightarrow> pyval \<Rightarrow> pyval \<Rightarrow> pyexn + pyval"

text \<open>
  \<^verbatim>\<open>results['yearly_outputs'][-1][k] if results['yearly_outputs'] else {}\<close>
\<close>

definition last_output :: "pyval list \<Rightarrow> string \<Rightarrow> pyexn + pyval" where
  "last_output yearly_outputs k =
     (if yearly_outputs = [] then Inr (PDict []) else py_item (last yearly_outputs) k)"

text \<open>
  \<^verbatim>\<open>results['yearly_outputs'][-1]['market_state']['prices']['producer']
   if results['yearly_outputs'] else {}\<close>
\<close>

definition prev_producer_prices :: "pyval list \<Rightarrow> pyexn + pyval" where
  "prev_producer_prices yearly_outputs =
     (if yearly_outputs = [] then Inr (PDict [])
      else bnd (py_item (last yearly_outputs) ''market_state'') (\<lambda>m.
           bnd (py_item m ''prices'') (\<lambda>p. py_item p ''producer'')))"

text \<open>
  \<^verbatim>\<open>{k: (v / population) * 1000 if population > 0 else 0 for k, v in ....items()}\<close>
\<close>

definition per_capita :: "pyval \<Rightarrow> string \<times> pyval \<Rightarrow> pyexn + string \<times> pyval" where
  "per_capita population kv =
     bnd (py_gt population (PInt 0)) (\<lambda>pos.
       if pos then bnd (py_div (snd kv) population) (\<lambda>q.
                   bnd (py_mul q (PInt 1000)) (\<lambda>r. Inr (fst kv, r)))
       else Inr (fst kv, PInt 0))"

text \<open>
  The body of the \<^verbatim>\<open>try\<close> block of the year loop: one simulated year. It returns
  the updated socioeconomic state and the year's record \<^verbatim>\<open>yearly_data\<close>, or the
  exception that leaves the block.
\<close>

definition simulate_year ::
  "models \<Rightarrow> string \<Rightarrow> int \<Rightarrow> pyval \<Rightarrow> pyval \<Rightarrow> pyval list \<Rightarrow> pyexn + pyval \<times> pyval" where
  "simulate_year ms scenario_name year current_socioeconomic_state current_health_state
      yearly_outputs =
   bnd (last_output yearly_outputs ''production_output'') (\<lambda>prev_production.
   bnd (last_output yearly_outputs ''market_state'') (\<lambda>prev_market.
   bnd (last_output yearly_outputs ''supply_chain_output'') (\<lambda>prev_supply_chain.
   bnd (simulate_policy_impacts ms year scenario_name
          (PDict [(''socioeconomic'', current_socioeconomic_state),
                  (''agricultural_production'', prev_production),
                  (''market_dynamics'', prev_market),
                  (''food_supply_chain'', prev_supply_chain)])) (\<lambda>policy_impacts_for_year.
   bnd (last_output yearly_outputs ''production_output'') (\<lambda>prev_agri_state.
   bnd (simulate_climate_resilience ms year prev_agri_state current_socioeconomic_state
          policy_impacts_for_year) (\<lambda>climate_resilience_output.
   bnd (simulate_socioeconomic_factors ms year current_socioeconomic_state
          policy_impacts_for_year climate_resilience_output) (\<lambda>new_socioeconomic_state.
   bnd (prev_producer_prices yearly_outputs) (\<lambda>prev_market_prices.
   bnd (simulate_production ms year climate_resilience_output
          (PDict [(''fertilizer_access'', PFloat (9 / 10)),
                  (''irrigation_coverage'', PFloat (6 / 10))])
          (PDict [(''improved_seeds_rate'', PFloat (7 / 10))])
          prev_market_prices) (\<lambda>production_output.
   bnd (simulate_supply_chains ms year production_output) (\<lambda>supply_chain_output.
   bnd (if is_dict supply_chain_output then Inr () else Inl AttributeError) (\<lambda>_.
   bnd (py_get production_output ''total_food'' (PDict [])) (\<lambda>total_food.
   bnd (py_get supply_chain_output ''available_supply'' total_food)
     (\<lambda>food_availability_market.
   bnd (py_get policy_impacts_for_year ''trade_policy_effects'' (PDict [])) (\<lambda>trade_effects.
   bnd (py_get policy_impacts_for_year ''social_protection_effects'' (PDict []))
     (\<lambda>social_effects.
   bnd (simulate_market_dynamics ms year supply_chain_output new_socioeconomic_state
          (PDict [(''trade_policy_effects'', trade_effects),
                  (''social_protection_effects'', social_effects)])) (\<lambda>market_state.
   bnd (py_get market_state ''market_supply'' (PDict [])) (\<lambda>food_availability_nutrition.
   bnd (py_item new_socioeconomic_state ''population'') (\<lambda>population_data.
   bnd (py_item population_data ''total_population'') (\<lambda>population.
   bnd (py_items food_availability_nutrition) (\<lambda>supply_items.
   bnd (map_raise (per_capita population) supply_items) (\<lambda>food_availability_nutrition_pc.
   bnd (py_get market_state ''prices'' (PDict [])) (\<lambda>prices.
   bnd (py_get prices ''retail'' (PDict [])) (\<lambda>retail_prices.
   bnd (simulate_nutritional_outcomes ms year (PDict food_availability_nutrition_pc)
          retail_prices new_socioeconomic_state current_health_state)
     (\<lambda>nutritional_outcomes.
   Inr (new_socioeconomic_state,
        PDict [(''year'', PInt year),
               (''policy_impacts'', policy_impacts_for_year),
               (''climate_resilience_output'', climate_resilience_output),
               (''socioeconomic_state'', new_socioeconomic_state),
               (''production_output'', production_output),
               (''supply_chain_output'', supply_chain_output),
               (''market_state'', market_state),
               (''nutritional_outcomes'', nutritional_outcomes)])
   ))))))))))))))))))))))))"

text \<open>
  The loop \<^verbatim>\<open>for year in range(start_year, end_year + 1)\<close> over the years still
  to simulate. A year that raises ends the loop with the year and the exception (the
  \<^verbatim>\<open>except\<close> branch prints both and returns \<^verbatim>\<open>None\<close>); otherwise the year's
  record is appended and the socioeconomic state replaced.
\<close>

fun year_loop ::
  "models \<Rightarrow> string \<Rightarrow> pyval \<Rightarrow> int list \<Rightarrow> pyval \<Rightarrow> pyval list
     \<Rightarrow> (int \<times> pyexn) + pyval \<times> pyval list" where
  "year_loop ms scenario_name health [] socio yearly_outputs = Inr (socio, yearly_outputs)"
| "year_loop ms scenario_name health (year # years) socio yearly_outputs =
     (case simulate_year ms scenario_name year socio health yearly_outputs of
        Inl e \<Rightarrow> Inl (year, e)
      | Inr (socio', yearly_data) \<Rightarrow>
          year_loop ms scenario_name health years socio' (yearly_outputs @ [yearly_data]))"

section \<open>Aggregation, key metrics and the scenario result\<close>

text \<open>
  The named indicator paths of the aggregation, in the order of \<^verbatim>\<open>agg_data_dict\<close>:
  each column is \<^verbatim>\<open>[res.get(k1, {})....get(kn, np.nan) for res in yearly_outputs]\<close>.
\<close>

definition indicator_paths :: "(string \<times> string list) list" where
  "indicator_paths =
     [(''year'', [''year'']),
      (''total_population'', [''socioeconomic_state'', ''population'', ''total_population'']),
      (''gdp_per_capita'', [''socioeconomic_state'', ''economy'', ''gdp_per_capita'']),
      (''rice_production_total'', [''production_output'', ''total_food'', ''cereals'', ''rice'']),
      (''wheat_production_total'',
         [''production_output'', ''total_food'', ''cereals'', ''wheat'']),
      (''rice_price_retail'', [''market_state'', ''prices'', ''retail'', ''rice'']),
      (''stunting_prevalence'',
         [''nutritional_outcomes'', ''nutritional_status_indicators'', ''stunting_prevalence'']),
      (''wasting_prevalence'',
         [''nutritional_outcomes'', ''nutritional_status_indicators'', ''wasting_prevalence'']),
      (''avg_energy_intake'',
         [''nutritional_outcomes'', ''average_nutrient_intake_per_capita_day'',
          ''energy_kcal''])]"

definition aggregate_column :: "pyval list \<Rightarrow> string list \<Rightarrow> pyexn + pyval list" where
  "aggregate_column yearly_outputs path =
     map_raise (\<lambda>res. get_chain res path PNaN) yearly_outputs"

definition aggregate :: "pyval list \<Rightarrow> pyexn + (string \<times> pyval list) list" where
  "aggregate yearly_outputs =
     map_raise (\<lambda>(column, path).
        bnd (aggregate_column yearly_outputs path) (\<lambda>entries. Inr (column, entries)))
       indicator_paths"

text \<open>
  A data frame is its named columns. \<^verbatim>\<open>pd.DataFrame(d)\<close> raises ValueError when
  the columns differ in length. Cells are kept as given (the dtype inference of pandas is
  not modelled).
\<close>

type_synonym dataframe = "(string \<times> pyval list) list"

type_synonym row = "(string \<times> pyval) list"

definition DataFrame :: "(string \<times> pyval list) list \<Rightarrow> pyexn + dataframe" where
  "DataFrame d =
     (case d of
        [] \<Rightarrow> Inr []
      | c # cs \<Rightarrow>
          if list_all (\<lambda>c'. length (snd c') = length (snd c)) cs then Inr d
          else Inl ValueError)"

definition nrows :: "dataframe \<Rightarrow> nat" where
  "nrows df = (case df of [] \<Rightarrow> 0 | c # cs \<Rightarrow> length (snd c))"

definition df_empty :: "dataframe \<Rightarrow> bool" where
  "df_empty df = (df = [] \<or> nrows df = 0)"

definition row_at :: "dataframe \<Rightarrow> nat \<Rightarrow> row" where
  "row_at df i = map (\<lambda>(column, cells). (column, cells ! i)) df"

definition rows_of :: "dataframe \<Rightarrow> row list" where
  "rows_of df = map (row_at df) [0..<nrows df]"

text \<open>\<^verbatim>\<open>final_row.get(column, default)\<close>\<close>

definition row_get :: "row \<Rightarrow> string \<Rightarrow> pyval \<Rightarrow> pyval" where
  "row_get r column d = (case map_of r column of None \<Rightarrow> d | Some v \<Rightarrow> v)"

text \<open>\<^verbatim>\<open>pd.notna(v)\<close> for a scalar: NaN and \<^verbatim>\<open>None\<close> are missing.\<close>

fun notna :: "pyval \<Rightarrow> bool" where
  "notna PNaN = False"
| "notna PNone = False"
| "notna _ = True"

text \<open>
  An f-string field \<^verbatim>\<open>{v:spec}\<close> with a fixed-point format. The digits of a finite
  number are those of the Python runtime, a parameter here; NaN is rendered as \<open>nan\<close>;
  a string refuses the format with ValueError and the other objects with TypeError.
\<close>

definition render :: "(string \<Rightarrow> real \<Rightarrow> string) \<Rightarrow> string \<Rightarrow> pyval \<Rightarrow> pyexn + string" where
  "render fmt spec v =
     (case v of
        PInt i \<Rightarrow> Inr (fmt spec (of_int i))
      | PFloat r \<Rightarrow> Inr (fmt spec r)
      | PNaN \<Rightarrow> Inr ''nan''
      | PStr s \<Rightarrow> Inl ValueError
      | _ \<Rightarrow> Inl TypeError)"

text \<open>
  \<^verbatim>\<open>f"{v:spec}suffix" if pd.notna(v) else "N/A"\<close>
\<close>

definition render_or_na ::
  "(string \<Rightarrow> real \<Rightarrow> string) \<Rightarrow> string \<Rightarrow> string \<Rightarrow> pyval \<Rightarrow> pyexn + string" where
  "render_or_na fmt spec suffix v =
     (if notna v then bnd (render fmt spec v) (\<lambda>s. Inr (s @ suffix)) else Inr ''N/A'')"

text \<open>
  \<^verbatim>\<open>Series.mean()\<close> skips the missing entries; without any entry left it is NaN.
\<close>

fun present_numbers :: "pyval list \<Rightarrow> pyexn + real list" where
  "present_numbers [] = Inr []"
| "present_numbers (PInt i # vs) = bnd (present_numbers vs) (\<lambda>rs. Inr (of_int i # rs))"
| "present_numbers (PFloat r # vs) = bnd (present_numbers vs) (\<lambda>rs. Inr (r # rs))"
| "present_numbers (PNaN # vs) = present_numbers vs"
| "present_numbers (PNone # vs) = present_numbers vs"
| "present_numbers (v # vs) = Inl TypeError"

definition series_mean :: "pyval list \<Rightarrow> pyexn + pyval" where
  "series_mean cells =
     bnd (present_numbers cells) (\<lambda>rs.
       Inr (if rs = [] then PNaN else PFloat (sum_list rs / real (length rs))))"

text \<open>The \<^verbatim>\<open>key_metrics\<close> dictionary, from the final row and the rice column.\<close>

definition key_metrics_of ::
  "(string \<Rightarrow> real \<Rightarrow> string) \<Rightarrow> dataframe \<Rightarrow> pyexn + (string \<times> string) list" where
  "key_metrics_of fmt agg_df =
     (if df_empty agg_df then Inr [(''Error'', ''No data to calculate final metrics'')]
      else
        let final_row = row_at agg_df (nrows agg_df - 1) in
        bnd (render fmt '',.0f'' (row_get final_row ''total_population'' (PInt 0)))
          (\<lambda>final_population.
        bnd (render fmt '',.2f'' (row_get final_row ''gdp_per_capita'' (PInt 0)))
          (\<lambda>final_gdp.
        bnd (render_or_na fmt ''.3f'' [] (row_get final_row ''stunting_prevalence'' PNone))
          (\<lambda>final_stunting.
        bnd (render_or_na fmt ''.3f'' [] (row_get final_row ''wasting_prevalence'' PNone))
          (\<lambda>final_wasting.
        bnd (render_or_na fmt ''.0f'' '' kcal'' (row_get final_row ''avg_energy_intake'' PNone))
          (\<lambda>final_energy.
        bnd (case map_of agg_df ''rice_production_total'' of
               None \<Rightarrow> Inl KeyError
             | Some cells \<Rightarrow> series_mean cells) (\<lambda>mean.
        bnd (if notna mean
             then bnd (py_div mean (PFloat 1000000)) (\<lambda>m.
                  bnd (render fmt ''.2f'' m) (\<lambda>s. Inr (s @ '' M Tonnes'')))
             else Inr ''N/A'') (\<lambda>avg_rice.
        Inr [(''Final Population'', final_population),
             (''Final GDP per Capita'', ''$'' @ final_gdp),
             (''Final Stunting Rate'', final_stunting),
             (''Final Wasting Rate'', final_wasting),
             (''Avg Energy Intake (Final Year)'', final_energy),
             (''Avg Rice Production'', avg_rice)]))))))))"

section \<open>The scenario runner\<close>

text \<open>
  What \<^verbatim>\<open>run_simulation_scenario\<close> takes from outside the modelled code: the
  constructors of the four models whose formulas are not embedded (each returns the
  stepping method of the new object, or raises), the outcome of creating a directory and
  of writing a CSV file, and the rendering of floats.
\<close>

record world =
  AgriculturalProductionModel ::
    "pyval \<Rightarrow> pyexn + (int \<Rightarrow> pyval \<Rightarrow> pyval \<Rightarrow> pyval \<Rightarrow> pyval \<Rightarrow> pyexn + pyval)"
  ClimateResilienceModel :: "pyval \<Rightarrow> pyexn + (int \<Rightarrow> pyval \<Rightarrow> pyval \<Rightarrow> pyval \<Rightarrow> pyexn + pyval)"
  FoodSupplyChainModel :: "pyval \<Rightarrow> pyexn + (int \<Rightarrow> pyval \<Rightarrow> pyexn + pyval)"
  PolicyInterventionsModel :: "pyval \<Rightarrow> pyexn + (int \<Rightarrow> string \<Rightarrow> pyval \<Rightarrow> pyexn + pyval)"
  makedirs :: "string \<Rightarrow> bool"
  to_csv :: "string \<Rightarrow> bool"
  format_float :: "string \<Rightarrow> real \<Rightarrow> string"

text \<open>
  The first \<^verbatim>\<open>try\<close> block: the seven constructors in the source's order, each on
  \<^verbatim>\<open>parameters.get(group, {})\<close>; then the historical data of the nutrition model
  is loaded (the market model's is never read).
\<close>

definition init_models :: "world \<Rightarrow> pyval \<Rightarrow> pyexn + models" where
  "init_models w parameters =
     bnd (py_get parameters ''agricultural_production'' (PDict [])) (\<lambda>c1.
     bnd (AgriculturalProductionModel w c1) (\<lambda>agri_model.
     bnd (py_get parameters ''climate_resilience'' (PDict [])) (\<lambda>c2.
     bnd (ClimateResilienceModel w c2) (\<lambda>climate_model.
     bnd (py_get parameters ''food_supply_chain'' (PDict [])) (\<lambda>c3.
     bnd (FoodSupplyChainModel w c3) (\<lambda>fsc_model.
     bnd (py_get parameters ''socioeconomic_dynamics'' (PDict [])) (\<lambda>c4.
     bnd (SocioeconomicDynamicsModel c4) (\<lambda>socio_model.
     bnd (py_get parameters ''policy_interventions'' (PDict [])) (\<lambda>c5.
     bnd (PolicyInterventionsModel w c5) (\<lambda>policy_model.
     bnd (py_get parameters ''nutritional_outcomes'' (PDict [])) (\<lambda>c6.
     bnd (NutritionalOutcomesModel c6) (\<lambda>nutrition_model.
     bnd (py_get parameters ''market_dynamics'' (PDict [])) (\<lambda>c7.
     bnd (MarketDynamicsModel c7) (\<lambda>market_model.
     Inr \<lparr>simulate_policy_impacts = policy_model,
          simulate_climate_resilience = climate_model,
          simulate_socioeconomic_factors = socio_simulate socio_model,
          simulate_production = agri_model,
          simulate_supply_chains = fsc_model,
          simulate_market_dynamics = market_simulate market_model,
          simulate_nutritional_outcomes =
            (\<lambda>year food prices socio health.
               Inr (nutrition_simulate (load_historical_data nutrition_model)
                      year food prices socio health))\<rparr>))))))))))))))"

text \<open>\<^verbatim>\<open>range(start_year, end_year + 1)\<close> takes integers only.\<close>

definition year_range :: "pyval \<Rightarrow> pyval \<Rightarrow> pyexn + int list" where
  "year_range start_year end_year =
     (case (start_year, end_year) of
        (PInt a, PInt b) \<Rightarrow> Inr [a..b]
      | _ \<Rightarrow> Inl TypeError)"

record aggregated_results =
  scenario_name :: string
  simulation_period :: "pyval \<times> pyval"
  config_summary :: pyval
  annual_summary :: "dataframe option"
  key_metrics :: "(string \<times> string) list option"

text \<open>
  What the function returns: \<^verbatim>\<open>None\<close>, the empty dictionary, or the aggregated
  results. Only the last is true in \<^verbatim>\<open>if results:\<close>.
\<close>

datatype run_result = ReturnNone | ReturnEmpty | Return aggregated_results

definition summary_path :: "string \<Rightarrow> string" where
  "summary_path name = ''results/'' @ name @ ''/'' @ name @ ''_timeseries_summary.csv''"

text \<open>
  The post-processing \<^verbatim>\<open>try\<close> block: the frame, its CSV file, the key metrics.
  An exception at any step leaves the results as they are at that step. The plots and the
  HTML report that follow are caught in the same way and set no field read here.
\<close>

definition post_process ::
  "world \<Rightarrow> string \<Rightarrow> aggregated_results \<Rightarrow> (string \<times> pyval list) list
     \<Rightarrow> aggregated_results \<times> (string \<times> dataframe) list" where
  "post_process w name base agg_data_dict =
     (case DataFrame agg_data_dict of
        Inl e \<Rightarrow> (base, [])
      | Inr agg_df \<Rightarrow>
          if \<not> to_csv w (summary_path name) then (base, [])
          else
            (case key_metrics_of (format_float w) agg_df of
               Inl e \<Rightarrow> (base\<lparr>annual_summary := Some agg_df\<rparr>, [(summary_path name, agg_df)])
             | Inr metrics \<Rightarrow>
                 (base\<lparr>annual_summary := Some agg_df, key_metrics := Some metrics\<rparr>,
                  [(summary_path name, agg_df)])))"

text \<open>The state carried into the first year.\<close>

definition initial_socioeconomic_state :: "pyval \<Rightarrow> pyval \<Rightarrow> pyval" where
  "initial_socioeconomic_state population gdp_per_capita =
     PDict [(''population'', PDict [(''total_population'', population)]),
            (''economy'', PDict [(''gdp_per_capita'', gdp_per_capita)]),
            (''income_distribution'', PDict [(''gini_coefficient'', PFloat (32 / 100))])]"

definition current_health_state :: pyval where
  "current_health_state =
     PDict [(''sanitation_coverage'', PFloat (8 / 10)), (''disease_burden_index'', PFloat 1)]"

text \<open>
  What follows the year loop. A year that raised ends the function with \<^verbatim>\<open>None\<close>
  before anything is aggregated or written. Otherwise the yearly outputs are aggregated
  (outside any \<^verbatim>\<open>try\<close>) and post-processed; without any yearly output the
  function returns the empty dictionary.
\<close>

definition finish_scenario ::
  "world \<Rightarrow> string \<Rightarrow> pyval \<times> pyval \<Rightarrow> pyval \<Rightarrow> (int \<times> pyexn) + pyval \<times> pyval list
     \<Rightarrow> pyexn + run_result \<times> (string \<times> dataframe) list" where
  "finish_scenario w name period parameters loop_result =
     (case loop_result of
        Inl failure \<Rightarrow> Inr (ReturnNone, [])
      | Inr (socio, yearly_outputs) \<Rightarrow>
          if yearly_outputs \<noteq> [] then
            bnd (aggregate yearly_outputs) (\<lambda>agg_data_dict.
              let (results, written) =
                    post_process w name
                      \<lparr>scenario_name = name,
                       simulation_period = period,
                       config_summary = parameters,
                       annual_summary = None, key_metrics = None\<rparr>
                      agg_data_dict
              in Inr (Return results, written))
          else Inr (ReturnEmpty, []))"

text \<open>
  \<^verbatim>\<open>run_simulation_scenario\<close>. The result is the exception that leaves the
  function, or what it returns together with the CSV files it has written.
\<close>

definition run_simulation_scenario ::
  "world \<Rightarrow> string \<Rightarrow> pyval \<Rightarrow> pyexn + run_result \<times> (string \<times> dataframe) list" where
  "run_simulation_scenario w name config =
     bnd (py_item config ''start_year'') (\<lambda>start_year.
     bnd (py_item config ''end_year'') (\<lambda>end_year.
     bnd (py_item config ''parameters'') (\<lambda>parameters.
     bnd (py_item config ''initial_state'') (\<lambda>initial_state.
     case init_models w parameters of
       Inl e \<Rightarrow> Inr (ReturnNone, [])
     | Inr ms \<Rightarrow>
         if \<not> (makedirs w (''results/'' @ name) \<and> makedirs w (''results/'' @ name @ ''/plots''))
         then Inr (ReturnNone, [])
         else
           bnd (py_get initial_state ''population'' (PFloat 170000000)) (\<lambda>population.
           bnd (py_get initial_state ''gdp_per_capita'' (PInt 2600)) (\<lambda>gdp_per_capita.
           bnd (year_range start_year end_year) (\<lambda>years.
           finish_scenario w name (start_year, end_year) parameters
             (year_loop ms name current_health_state years
                (initial_socioeconomic_state population gdp_per_capita) []))))))))"

section \<open>The batch of scenarios and the cross-scenario comparison\<close>

text \<open>The messages of the main block that name a scenario, and the two closing ones.\<close>

datatype message =
    CompletedSuccessfully string
  | FailedToComplete string
  | ErrorRunningScenario string pyexn
  | IncompleteResults string
  | ComparisonCreated nat
  | NoValidResults

record batch =
  all_scenario_results :: "(string \<times> aggregated_results) list"
  messages :: "message list"
  written_files :: "(string \<times> dataframe) list"

text \<open>
  \<^verbatim>\<open>for name, scenario_config in SCENARIOS.items()\<close>, with the
  \<^verbatim>\<open>try\<close>/\<^verbatim>\<open>except Exception\<close> around each run.
\<close>

fun main_loop :: "world \<Rightarrow> (string \<times> pyval) list \<Rightarrow> batch \<Rightarrow> batch" where
  "main_loop w [] b = b"
| "main_loop w ((name, scenario_config) # rest) b =
     main_loop w rest
       (case run_simulation_scenario w name scenario_config of
          Inl e \<Rightarrow> b\<lparr>messages := messages b @ [ErrorRunningScenario name e]\<rparr>
        | Inr (Return results, written) \<Rightarrow>
            b\<lparr>all_scenario_results := dict_set name results (all_scenario_results b),
              messages := messages b @ [CompletedSuccessfully name],
              written_files := written_files b @ written\<rparr>
        | Inr (other, written) \<Rightarrow>
            b\<lparr>messages := messages b @ [FailedToComplete name],
              written_files := written_files b @ written\<rparr>)"

text \<open>
  \<^verbatim>\<open>df = results['dataframes']['annual_summary'].copy(); df['scenario'] = name\<close>
\<close>

definition with_scenario :: "string \<Rightarrow> dataframe \<Rightarrow> dataframe" where
  "with_scenario name df = dict_set ''scenario'' (replicate (nrows df) (PStr name)) df"

text \<open>
  The comparison loop over the collected results: a scenario with a non-empty annual
  summary contributes its labelled frame, any other a warning.
\<close>

fun comparison_loop ::
  "(string \<times> aggregated_results) list \<Rightarrow> dataframe list \<times> message list" where
  "comparison_loop [] = ([], [])"
| "comparison_loop ((name, results) # rest) =
     (let (comparison_data, warnings) = comparison_loop rest in
      case annual_summary results of
        Some df \<Rightarrow>
          if \<not> df_empty df then (with_scenario name df # comparison_data, warnings)
          else (comparison_data, IncompleteResults name # warnings)
      | None \<Rightarrow> (comparison_data, IncompleteResults name # warnings))"

text \<open>
  \<^verbatim>\<open>pd.concat(comparison_data, ignore_index=True)\<close> of frames with the same
  columns stacks their rows. The table is \<open>None\<close> when no scenario is valid.
\<close>

record outcome =
  collected :: "(string \<times> aggregated_results) list"
  comparison_table :: "row list option"
  diagnostics :: "message list"

definition main :: "world \<Rightarrow> (string \<times> pyval) list \<Rightarrow> outcome" where
  "main w scenarios =
     (let b = main_loop w scenarios
                \<lparr>all_scenario_results = [], messages = [], written_files = []\<rparr>;
          (comparison_data, warnings) = comparison_loop (all_scenario_results b)
      in if comparison_data \<noteq> []
         then \<lparr>collected = all_scenario_results b,
               comparison_table = Some (concat (map rows_of comparison_data)),
               diagnostics =
                 messages b @ warnings @ [ComparisonCreated (length comparison_data)]\<rparr>
         else \<lparr>collected = all_scenario_results b,
               comparison_table = None,
               diagnostics = messages b @ warnings @ [NoValidResults]\<rparr>)"

section \<open>The baseline configuration and a test world\<close>

text \<open>\<^verbatim>\<open>BASE_CONFIG\<close> of \<^verbatim>\<open>run_full_simulation.py\<close>.\<close>

definition BASE_CONFIG :: pyval where
  "BASE_CONFIG =
     PDict
      [(''simulation_name'', PStr ''BD_FoodSecurity_Scenario_Baseline''),
       (''start_year'', PInt 2025),
       (''end_year'', PInt 2035),
       (''initial_state'',
          PDict [(''population'', PFloat 170000000),
                 (''gdp_per_capita'', PInt 2600),
                 (''stunting_rate'', PFloat (28 / 100)),
                 (''wasting_rate'', PFloat (8 / 100)),
                 (''rice_production'', PFloat 38000000)]),
       (''parameters'',
          PDict
           [(''agricultural_production'',
               PDict [(''yield_trends'',
                         PDict [(''rice'', PFloat (1 / 100)), (''wheat'', PFloat (15 / 1000)),
                                (''maize'', PFloat (2 / 100))]),
                      (''climate_yield_sensitivity'',
                         PDict [(''rice'', PFloat (- 5 / 100)),
                                (''wheat'', PFloat (- 7 / 100))])]),
            (''climate_resilience'',
               PDict [(''temp_anomaly_trend'', PFloat (3 / 100)),
                      (''precip_change_trend'', PFloat (- 5 / 1000)),
                      (''adaptation_effectiveness'', PFloat (3 / 10))]),
            (''food_supply_chain'',
               PDict [(''storage_loss_rate'',
                         PDict [(''cereals'', PFloat (6 / 100)),
                                (''perishables'', PFloat (15 / 100))]),
                      (''transport_efficiency'', PFloat (95 / 100))]),
            (''socioeconomic_dynamics'',
               PDict [(''population_growth_rate'', PFloat (1 / 100)),
                      (''gdp_growth_rate'', PFloat (65 / 1000)),
                      (''income_elasticity_diet'', PFloat (4 / 10))]),
            (''policy_interventions'',
               PDict [(''policy_scenario_active'', PStr ''baseline''),
                      (''fertilizer_subsidy_level'', PFloat (1 / 10)),
                      (''safety_net_coverage'', PFloat (2 / 10))]),
            (''nutritional_outcomes'',
               PDict [(''health_access_improvement_rate'', PFloat (1 / 100)),
                      (''base_nutrient_req'',
                         PDict [(''energy_kcal'', PInt 2100), (''protein_g'', PInt 50)])]),
            (''market_dynamics'',
               PDict [(''demand_elasticity'',
                         PDict [(''price'', PFloat (- 3 / 10)), (''income'', PFloat (4 / 10))]),
                      (''price_transmission'', PDict [(''producer_retail'', PFloat (6 / 10))]),
                      (''world_prices'',
                         PDict [(''rice'', PInt 450), (''wheat'', PInt 350)])])])]"

text \<open>
  A world for running examples: the four constructors outside the embedding give
  models that return an empty dictionary every year, directories and files can be
  written, and a float is rendered as a fixed mark.
\<close>

definition quiet_world :: world where
  "quiet_world =
     \<lparr>AgriculturalProductionModel = (\<lambda>config. Inr (\<lambda>year c i t p. Inr (PDict []))),
      ClimateResilienceModel = (\<lambda>config. Inr (\<lambda>year a s g. Inr (PDict []))),
      FoodSupplyChainModel = (\<lambda>config. Inr (\<lambda>year p. Inr (PDict []))),
      PolicyInterventionsModel = (\<lambda>config. Inr (\<lambda>year name s. Inr (PDict []))),
      makedirs = (\<lambda>path. True),
      to_csv = (\<lambda>path. True),
      format_float = (\<lambda>spec r. ''#'')\<rparr>"


text \<open>A year range other than the baseline's, for running shorter scenarios.\<close>

definition with_years :: "int \<Rightarrow> int \<Rightarrow> pyval \<Rightarrow> pyval" where
  "with_years start_year end_year config =
     (case config of
        PDict kvs \<Rightarrow>
          PDict (dict_set ''end_year'' (PInt end_year)
                  (dict_set ''start_year'' (PInt start_year) kvs))
      | other \<Rightarrow> other)"

text \<open>
  A second world, in which the policy model raises in 2026 for the scenario named
  \<open>broken\<close>.
\<close>

definition faulty_world :: world where
  "faulty_world =
     quiet_world\<lparr>PolicyInterventionsModel :=
       (\<lambda>config. Inr (\<lambda>year name s.
          if name = ''broken'' \<and> year = 2026 then Inl ValueError else Inr (PDict [])))\<rparr>"

text \<open>
  Seven stepping functions with fixed outputs, shaped so that a year succeeds, and a
  variant whose policy model raises in a given year.
\<close>

definition steady_models :: models where
  "steady_models =
     \<lparr>simulate_policy_impacts = (\<lambda>year name state. Inr (PDict [])),
      simulate_climate_resilience = (\<lambda>year a s g. Inr (PDict [])),
      simulate_socioeconomic_factors = (\<lambda>year state g c. Inr state),
      simulate_production = (\<lambda>year c i t p. Inr (PDict [])),
      simulate_supply_chains = (\<lambda>year p. Inr (PDict [])),
      simulate_market_dynamics =
        (\<lambda>year p s e. Inr (PDict [(''prices'', PDict [(''producer'', PDict [])])])),
      simulate_nutritional_outcomes = (\<lambda>year f p s h. Inr (PDict []))\<rparr>"

definition failing_in :: "int \<Rightarrow> models" where
  "failing_in bad_year =
     steady_models\<lparr>simulate_policy_impacts :=
       (\<lambda>year name state. if year = bad_year then Inl ValueError else Inr (PDict []))\<rparr>"

text \<open>
  The example of the \<^verbatim>\<open>__main__\<close> block of \<^verbatim>\<open>market_dynamics.py\<close>: its
  configuration and its inputs for 2025.
\<close>

definition example_market_config :: pyval where
  "example_market_config =
     PDict [(''demand_params'',
               PDict [(''rice_income_elasticity'', PFloat (2 / 10)),
                      (''meat_income_elasticity'', PFloat (8 / 10))]),
            (''price_params'',
               PDict [(''wholesale_retail_margin'', PFloat (8 / 10)),
                      (''producer_wholesale_margin'', PFloat (65 / 100))]),
            (''trade_params'',
               PDict [(''world_prices'', PDict [(''rice'', PInt 400), (''wheat'', PInt 300)])])]"

definition example_prod_data :: pyval where
  "example_prod_data =
     PDict [(''total_food'',
       PDict [(''cereals'', PDict [(''rice'', PFloat 35000000), (''wheat'', PFloat 1000000)]),
              (''pulses'', PFloat 800000),
              (''fish'', PDict [(''total'', PFloat 4000000)]),
              (''meat'', PDict [(''beef_mutton'', PFloat 1500000),
                                (''poultry'', PFloat 2000000)]),
              (''other_livestock'',
                 PDict [(''milk'', PFloat 10000000), (''eggs'', PFloat 15000000000)])])]"

definition example_socio_state :: pyval where
  "example_socio_state =
     PDict [(''population'', PDict [(''total_population'', PFloat 171000000)]),
            (''economy'', PDict [(''gdp_per_capita'', PInt 2300)])]"

definition example_policy_eff :: pyval where
  "example_policy_eff =
     PDict [(''trade_policy_effects'',
               PDict [(''export_volume_modifier'', PFloat 1),
                      (''import_price_modifier'', PFloat 1)]),
            (''social_protection_effects'', PDict [(''transfer_value_modifier'', PFloat 1)])]"

section \<open>Notions used to state the properties\<close>

text \<open>
  The value found by walking a path of keys into a record, if every key is there; and
  the shape under which the aggregation's chain of \<^verbatim>\<open>.get\<close> calls cannot raise:
  every object met before the end of the path is a dictionary.
\<close>

fun path_value :: "pyval \<Rightarrow> string list \<Rightarrow> pyval option" where
  "path_value v [] = Some v"
| "path_value (PDict kvs) (k # ks) =
     (case map_of kvs k of None \<Rightarrow> None | Some v \<Rightarrow> path_value v ks)"
| "path_value other (k # ks) = None"

fun mappings_along :: "pyval \<Rightarrow> string list \<Rightarrow> bool" where
  "mappings_along v [] = True"
| "mappings_along (PDict kvs) (k # ks) =
     (case map_of kvs k of None \<Rightarrow> True | Some v \<Rightarrow> mappings_along v ks)"
| "mappings_along other (k # ks) = False"

definition entry_at :: "pyval \<Rightarrow> string list \<Rightarrow> pyval" where
  "entry_at res path = (case path_value res path of Some v \<Rightarrow> v | None \<Rightarrow> PNaN)"

definition well_shaped :: "pyval \<Rightarrow> bool" where
  "well_shaped res = list_all (\<lambda>(column, path). mappings_along res path) indicator_paths"

text \<open>A prevalence that is a number and not below zero.\<close>

fun nonneg :: "pyval \<Rightarrow> bool" where
  "nonneg (PInt i) = (0 \<le> i)"
| "nonneg (PFloat r) = (0 \<le> r)"
| "nonneg other = False"

text \<open>The column of a frame, and the rows of a comparison table.\<close>

definition column :: "dataframe \<Rightarrow> string \<Rightarrow> pyval list" where
  "column df name = (case map_of df name of None \<Rightarrow> [] | Some cells \<Rightarrow> cells)"

definition table_rows :: "outcome \<Rightarrow> row list" where
  "table_rows out = (case comparison_table out of None \<Rightarrow> [] | Some rows \<Rightarrow> rows)"

text \<open>What a scenario brings to the comparison: the labelled rows of its annual summary.\<close>

definition contribution :: "world \<Rightarrow> string \<times> pyval \<Rightarrow> row list" where
  "contribution w scenario =
     (case run_simulation_scenario w (fst scenario) (snd scenario) of
        Inr (Return results, written) \<Rightarrow>
          (case annual_summary results of
             Some df \<Rightarrow> rows_of (with_scenario (fst scenario) df)
           | None \<Rightarrow> [])
      | other \<Rightarrow> [])"

text \<open>What a scenario adds to the collected results of the batch.\<close>

definition collected_of :: "world \<Rightarrow> string \<times> pyval \<Rightarrow> (string \<times> aggregated_results) list" where
  "collected_of w scenario =
     (case run_simulation_scenario w (fst scenario) (snd scenario) of
        Inr (Return results, written) \<Rightarrow> [(fst scenario, results)]
      | other \<Rightarrow> [])"

definition names :: "string \<Rightarrow> message \<Rightarrow> bool" where
  "names name m =
     (case m of
        FailedToComplete n \<Rightarrow> n = name
      | ErrorRunningScenario n e \<Rightarrow> n = name
      | IncompleteResults n \<Rightarrow> n = name
      | other \<Rightarrow> False)"


section \<open>Scenario configurations as objects in a store\<close>

text \<open>
  \<^verbatim>\<open>BASE_CONFIG\<close> and the scenario configurations are dictionaries that the module
  mutates after building them, so here they are objects: a store is the list of the
  container objects created so far, an address is an index into it, and a slot of a
  container holds a scalar or the address of another container.
\<close>

datatype hval = HNone | HInt int | HFloat real | HNaN | HStr string | HRef nat

datatype hobj = ODict "(string \<times> hval) list" | OList "hval list"

type_synonym store = "hobj list"

text \<open>Evaluating a literal creates its containers, the inner ones first.\<close>

fun alloc :: "pyval \<Rightarrow> store \<Rightarrow> hval \<times> store"
  and alloc_list :: "pyval list \<Rightarrow> store \<Rightarrow> hval list \<times> store"
  and alloc_items :: "(string \<times> pyval) list \<Rightarrow> store \<Rightarrow> (string \<times> hval) list \<times> store"
  where
  "alloc PNone s = (HNone, s)"
| "alloc (PInt i) s = (HInt i, s)"
| "alloc (PFloat r) s = (HFloat r, s)"
| "alloc PNaN s = (HNaN, s)"
| "alloc (PStr t) s = (HStr t, s)"
| "alloc (PList xs) s = (case alloc_list xs s of (vs, s') \<Rightarrow> (HRef (length s'), s' @ [OList vs]))"
| "alloc (PDict kvs) s =
     (case alloc_items kvs s of (kvs', s') \<Rightarrow> (HRef (length s'), s' @ [ODict kvs']))"
| "alloc_list [] s = ([], s)"
| "alloc_list (x # xs) s =
     (case alloc x s of (v, s1) \<Rightarrow> case alloc_list xs s1 of (vs, s2) \<Rightarrow> (v # vs, s2))"
| "alloc_items [] s = ([], s)"
| "alloc_items (kx # kvs) s =
     (case alloc (snd kx) s of (v, s1) \<Rightarrow>
        case alloc_items kvs s1 of (kvs', s2) \<Rightarrow> ((fst kx, v) # kvs', s2))"

text \<open>
  The value that a slot stands for, read through the store. The first argument bounds
  the depth of the walk; a walk that needs more is \<open>None\<close>.
\<close>

fun snapshot :: "nat \<Rightarrow> store \<Rightarrow> hval \<Rightarrow> pyval option" where
  "snapshot n s HNone = Some PNone"
| "snapshot n s (HInt i) = Some (PInt i)"
| "snapshot n s (HFloat r) = Some (PFloat r)"
| "snapshot n s HNaN = Some PNaN"
| "snapshot n s (HStr t) = Some (PStr t)"
| "snapshot 0 s (HRef a) = None"
| "snapshot (Suc n) s (HRef a) =
     (if a < length s then
        (case s ! a of
           ODict kvs \<Rightarrow>
             map_option PDict
               (those (map (\<lambda>kv. map_option (Pair (fst kv)) (snapshot n s (snd kv))) kvs))
         | OList vs \<Rightarrow> map_option PList (those (map (snapshot n s) vs)))
      else None)"

text \<open>
  The walks of this module go as deep as the interpreter's recursion limit lets
  \<^verbatim>\<open>copy.deepcopy\<close> go, 1000 by default.
\<close>

definition depth_limit :: nat where
  "depth_limit = 1000"

definition config_of :: "store \<Rightarrow> nat \<Rightarrow> pyval option" where
  "config_of s a = snapshot depth_limit s (HRef a)"

text \<open>
  \<^verbatim>\<open>copy.deepcopy(x)\<close> of an object without cycles or shared parts: new
  containers with the same contents throughout.
\<close>

definition deepcopy :: "store \<Rightarrow> hval \<Rightarrow> (hval \<times> store) option" where
  "deepcopy s v = map_option (\<lambda>t. alloc t s) (snapshot depth_limit s v)"

text \<open>\<^verbatim>\<open>d[k1]...[kn]\<close> from the dictionary at an address: the address reached.\<close>

fun navigate :: "store \<Rightarrow> nat \<Rightarrow> string list \<Rightarrow> pyexn + nat" where
  "navigate s a [] = Inr a"
| "navigate s a (k # ks) =
     (if a < length s then
        (case s ! a of
           ODict kvs \<Rightarrow>
             (case map_of kvs k of
                Some (HRef b) \<Rightarrow> navigate s b ks
              | Some scalar \<Rightarrow> Inl TypeError
              | None \<Rightarrow> Inl KeyError)
         | OList vs \<Rightarrow> Inl TypeError)
      else Inl KeyError)"

text \<open>
  \<^verbatim>\<open>x[k1]...[kn][key] = value\<close>: the value is built first, then stored in the
  dictionary that the path leads to.
\<close>

definition assign :: "store \<Rightarrow> nat \<Rightarrow> string list \<Rightarrow> string \<Rightarrow> pyval \<Rightarrow> pyexn + store" where
  "assign s start path key val =
     (case alloc val s of (v, s') \<Rightarrow>
        bnd (navigate s' start path) (\<lambda>a.
          if a < length s' then
            (case s' ! a of
               ODict kvs \<Rightarrow> Inr (s'[a := ODict (dict_set key v kvs)])
             | OList vs \<Rightarrow> Inl TypeError)
          else Inl KeyError))"

text \<open>A sequence of such assignments through one object.\<close>

fun mutate :: "store \<Rightarrow> nat \<Rightarrow> (string list \<times> string \<times> pyval) list \<Rightarrow> pyexn + store" where
  "mutate s start [] = Inr s"
| "mutate s start ((path, key, val) # rest) =
     bnd (assign s start path key val) (\<lambda>s'. mutate s' start rest)"

text \<open>
  The module level of \<^verbatim>\<open>run_full_simulation.py\<close> from \<^verbatim>\<open>BASE_CONFIG\<close> to the
  last override: the store, and \<^verbatim>\<open>SCENARIOS\<close> as the address of each scenario's
  configuration. The baseline scenario is \<^verbatim>\<open>BASE_CONFIG\<close> itself; the three others
  are deep copies, overridden afterwards.
\<close>

definition copy_base :: "store \<Rightarrow> nat \<Rightarrow> pyexn + nat \<times> store" where
  "copy_base s base =
     (case deepcopy s (HRef base) of
        Some (HRef a, s') \<Rightarrow> Inr (a, s')
      | other \<Rightarrow> Inl TypeError)"

definition SCENARIOS :: "pyexn + store \<times> (string \<times> nat) list" where
  "SCENARIOS =
     (case alloc BASE_CONFIG [] of
        (HRef base, s0) \<Rightarrow>
          bnd (copy_base s0 base) (\<lambda>(high, s1).
          bnd (copy_base s1 base) (\<lambda>(enhanced, s2).
          bnd (copy_base s2 base) (\<lambda>(policy, s3).
          bnd (assign s3 high [] ''simulation_name''
                 (PStr ''BD_FoodSecurity_Scenario_HighClimateImpact'')) (\<lambda>s4.
          bnd (assign s4 high [''parameters'', ''climate_resilience''] ''temp_anomaly_trend''
                 (PFloat (5 / 100))) (\<lambda>s5.
          bnd (assign s5 high [''parameters'', ''climate_resilience''] ''precip_change_trend''
                 (PFloat (- 1 / 100))) (\<lambda>s6.
          bnd (assign s6 enhanced [] ''simulation_name''
                 (PStr ''BD_FoodSecurity_Scenario_EnhancedAdaptation'')) (\<lambda>s7.
          bnd (assign s7 enhanced [''parameters'', ''climate_resilience'']
                 ''adaptation_effectiveness'' (PFloat (6 / 10))) (\<lambda>s8.
          bnd (assign s8 policy [] ''simulation_name''
                 (PStr ''BD_FoodSecurity_Scenario_PolicyChangeSafetyNet'')) (\<lambda>s9.
          bnd (assign s9 policy [''parameters'', ''policy_interventions'']
                 ''policy_scenario_active'' (PStr ''enhanced_safety_nets'')) (\<lambda>s10.
          bnd (assign s10 policy [''parameters'', ''policy_interventions'']
                 ''safety_net_coverage'' (PFloat (4 / 10))) (\<lambda>s11.
          Inr (s11, [(''baseline'', base), (''high_climate_impact'', high),
                     (''enhanced_adaptation'', enhanced),
                     (''policy_change_safety_net'', policy)]))))))))))))
      | other \<Rightarrow> Inl TypeError)"

text \<open>The store of the module, and the configuration of a scenario read through a store.\<close>

definition module_store :: store where
  "module_store = (case SCENARIOS of Inr (s, table) \<Rightarrow> s | Inl e \<Rightarrow> [])"

definition scenario_address :: "string \<Rightarrow> nat option" where
  "scenario_address name = (case SCENARIOS of Inr (s, table) \<Rightarrow> map_of table name | Inl e \<Rightarrow> None)"

definition scenario_config :: "store \<Rightarrow> string \<Rightarrow> pyval option" where
  "scenario_config s name =
     (case scenario_address name of Some a \<Rightarrow> config_of s a | None \<Rightarrow> None)"

text \<open>
  The same override written on values: the configuration with the entry under a path
  of keys replaced.
\<close>

fun override :: "string list \<Rightarrow> pyval \<Rightarrow> pyval \<Rightarrow> pyval" where
  "override [] v config = v"
| "override (k # ks) v (PDict kvs) =
     PDict (dict_set k (override ks v (case map_of kvs k of Some c \<Rightarrow> c | None \<Rightarrow> PNone)) kvs)"
| "override (k # ks) v other = other"

text \<open>
  No reference of the store leads from an address inside the range \<open>lo \<le> a < hi\<close> to
  one outside it or back.
\<close>

fun refs_of :: "hobj \<Rightarrow> nat list" where
  "refs_of (ODict kvs) = concat (map (\<lambda>kv. case snd kv of HRef b \<Rightarrow> [b] | other \<Rightarrow> []) kvs)"
| "refs_of (OList vs) = concat (map (\<lambda>v. case v of HRef b \<Rightarrow> [b] | other \<Rightarrow> []) vs)"

definition inside :: "nat \<Rightarrow> nat \<Rightarrow> nat \<Rightarrow> bool" where
  "inside lo hi a = (lo \<le> a \<and> a < hi)"

definition separated :: "store \<Rightarrow> nat \<Rightarrow> nat \<Rightarrow> bool" where
  "separated s lo hi =
     (hi \<le> length s \<and>
      list_all (\<lambda>a. list_all (\<lambda>b. inside lo hi a = inside lo hi b) (refs_of (s ! a)))
        [0..<length s])"


text \<open>
  The baseline configuration for the single year 2025 with an initial population and
  an initial GDP per capita that are NaN, and with a wholesale margin under which the
  market model takes neither trade branch.
\<close>

definition missing_population_config :: pyval where
  "missing_population_config =
     override [''parameters'', ''market_dynamics'', ''price_params'']
       (PDict [(''wholesale_retail_margin'', PFloat (5 / 100))])
       (override [''initial_state'', ''gdp_per_capita''] PNaN
         (override [''initial_state'', ''population''] PNaN
           (with_years 2025 2025 BASE_CONFIG)))"

text \<open>
  Building a value leaves the objects of the store in place and adds objects at its end
  whose references stay among the added ones.
\<close>

definition extends :: "store \<Rightarrow> store \<Rightarrow> hval list \<Rightarrow> bool" where
  "extends s s' vs \<longleftrightarrow>
     (\<exists>new. s' = s @ new \<and>
        (\<forall>ob \<in> set new. \<forall>b \<in> set (refs_of ob). length s \<le> b) \<and>
        (\<forall>b. HRef b \<in> set vs \<longrightarrow> length s \<le> b))"

section \<open>Basic facts\<close>

lemma bnd_Inr_iff: "bnd m f = Inr r \<longleftrightarrow> (\<exists>x. m = Inr x \<and> f x = Inr r)"
  by (cases m) (simp_all add: bnd_def)

lemma bnd_Inl [simp]: "bnd (Inl e) f = Inl e"
  by (simp add: bnd_def)

lemma bnd_Inr [simp]: "bnd (Inr x) f = f x"
  by (simp add: bnd_def)

section \<open>The year loop\<close>

text \<open>
  A year that succeeds yields a record with the eight entries of \<^verbatim>\<open>yearly_data\<close>:
  the year itself, the socioeconomic state returned by the socioeconomic model (which is
  also the new carried state) and the output of the nutrition model among them.
\<close>

lemma simulate_year_record:
  assumes "simulate_year ms name year socio health outs = Inr (socio', yearly_data)"
  shows "\<exists>p c pr s m fa rp n.
      yearly_data = PDict [(''year'', PInt year), (''policy_impacts'', p),
               (''climate_resilience_output'', c),
               (''socioeconomic_state'', socio'),
               (''production_output'', pr),
               (''supply_chain_output'', s),
               (''market_state'', m),
               (''nutritional_outcomes'', n)]
      \<and> simulate_socioeconomic_factors ms year socio p c = Inr socio'
      \<and> simulate_nutritional_outcomes ms year fa rp socio' health = Inr n"
  using assms unfolding simulate_year_def bnd_Inr_iff
  by (elim exE conjE) (simp, blast)

lemma simulate_year_year:
  "simulate_year ms name year socio health outs = Inr (socio', yearly_data)
     \<Longrightarrow> py_item yearly_data ''year'' = Inr (PInt year)"
  by (drule simulate_year_record) auto

lemma year_loop_appends:
  "year_loop ms name health years socio acc = Inr (socio', outs) \<Longrightarrow>
     \<exists>new. outs = acc @ new \<and> length new = length years \<and>
       (\<forall>i<length years. py_item (new ! i) ''year'' = Inr (PInt (years ! i)))"
proof (induction years arbitrary: socio acc)
  case Nil
  then show ?case by simp
next
  case (Cons y ys)
  from Cons.prems obtain s1 r where
    step: "simulate_year ms name y socio health acc = Inr (s1, r)" and
    rest: "year_loop ms name health ys s1 (acc @ [r]) = Inr (socio', outs)"
    by (auto split: sum.splits)
  from Cons.IH [OF rest] obtain new where
    new: "outs = (acc @ [r]) @ new" "length new = length ys"
      "\<forall>i<length ys. py_item (new ! i) ''year'' = Inr (PInt (ys ! i))"
    by blast
  have "\<forall>i<length (y # ys). py_item ((r # new) ! i) ''year'' = Inr (PInt ((y # ys) ! i))"
    using new(3) simulate_year_year [OF step] by (auto simp: nth_Cons split: nat.splits)
  with new(1,2) show ?case
    by (intro exI [of _ "r # new"]) simp
qed

lemma year_loop_aborts:
  "year_loop ms name health ys1 socio acc = Inr (socio1, acc1) \<Longrightarrow>
   simulate_year ms name y socio1 health acc1 = Inl e \<Longrightarrow>
   year_loop ms name health (ys1 @ y # ys2) socio acc = Inl (y, e)"
  by (induction ys1 arbitrary: socio acc) (auto split: sum.splits)

section \<open>Claim C1\<close>

text \<open>
  C1, as amended. When the year loop over \<open>start_year, ..., end_year\<close> ends without an
  abort, the yearly outputs are the records held before the loop (none, in
  \<^verbatim>\<open>run_simulation_scenario\<close>) followed by exactly \<open>max 0 (end_year - start_year + 1)\<close>
  new ones, and the \<open>i\<close>-th new record has the year \<open>start_year + i\<close>: the sequence is
  built by appending, in year order, without gaps. A loop that aborted makes the function
  return \<^verbatim>\<open>None\<close> with no table written.
\<close>

theorem yearly_outputs_cover_the_years:
  assumes "year_loop ms name health [start_year..end_year] socio acc =
             Inr (socio', yearly_outputs)"
  shows "length yearly_outputs = length acc + nat (end_year - start_year + 1) \<and>
         take (length acc) yearly_outputs = acc \<and>
         (\<forall>i<nat (end_year - start_year + 1).
            py_item (yearly_outputs ! (length acc + i)) ''year'' =
              Inr (PInt (start_year + int i))) \<and>
         finish_scenario w name period parameters (Inl failure) = Inr (ReturnNone, [])"
proof -
  from year_loop_appends [OF assms] obtain new where
    new: "yearly_outputs = acc @ new" "length new = length [start_year..end_year]"
      "\<forall>i<length [start_year..end_year].
          py_item (new ! i) ''year'' = Inr (PInt ([start_year..end_year] ! i))"
    by blast
  have "length yearly_outputs = length acc + nat (end_year - start_year + 1)"
    using new(1,2) by simp
  moreover have "take (length acc) yearly_outputs = acc"
    using new(1) by simp
  moreover have "\<forall>i<nat (end_year - start_year + 1).
      py_item (yearly_outputs ! (length acc + i)) ''year'' = Inr (PInt (start_year + int i))"
    using new(1,3) by (simp add: nth_append)
  moreover have "finish_scenario w name period parameters (Inl failure) = Inr (ReturnNone, [])"
    by (simp add: finish_scenario_def)
  ultimately show ?thesis by blast
qed

text \<open>
  The theorem at work: two years of the fixed models, 2025 and 2026, from the initial
  state of the baseline.
\<close>

theorem yearly_outputs_cover_the_years_witness:
  "(case year_loop steady_models ''baseline'' current_health_state [2025..2026]
           (initial_socioeconomic_state (PFloat 170000000) (PInt 2600)) [] of
      Inr (socio, yearly_outputs) \<Rightarrow>
        length yearly_outputs = 2 \<and>
        py_item (yearly_outputs ! 0) ''year'' = Inr (PInt 2025) \<and>
        py_item (yearly_outputs ! 1) ''year'' = Inr (PInt 2026)
    | Inl failure \<Rightarrow> False)"
proof -
  have years: "[2025..2026] = [2025, 2026::int]"
    by (simp add: upto.simps)
  obtain socio outs where run:
    "year_loop steady_models ''baseline'' current_health_state [2025..2026]
       (initial_socioeconomic_state (PFloat 170000000) (PInt 2600)) [] = Inr (socio, outs)"
    unfolding years
    by (simp add: simulate_year_def steady_models_def last_output_def
          prev_producer_prices_def initial_socioeconomic_state_def)
  from yearly_outputs_cover_the_years [OF run]
  have "length outs = 2" and
    "\<forall>i<2. py_item (outs ! i) ''year'' = Inr (PInt (2025 + int i))"
    by simp_all
  then have "length outs = 2 \<and> py_item (outs ! 0) ''year'' = Inr (PInt 2025) \<and>
      py_item (outs ! 1) ''year'' = Inr (PInt 2026)"
    by (auto simp: numeral_2_eq_2 less_Suc_eq)
  with run show ?thesis by simp
qed

text \<open>
  The claim as first stated gives the count as \<open>end_year - start_year + 1\<close>. For a
  configuration whose end year lies more than one year before its start year the loop
  body never runs, nothing aborts, and the empty sequence has \<open>0\<close> entries, not \<open>-1\<close>.
\<close>

theorem yearly_outputs_count_counterexample:
  "year_loop steady_models ''baseline'' current_health_state [2025..2023]
      (initial_socioeconomic_state (PFloat 170000000) (PInt 2600)) [] =
     Inr (initial_socioeconomic_state (PFloat 170000000) (PInt 2600), [])
   \<and> int (length ([] :: pyval list)) \<noteq> 2023 - 2025 + 1"
  by (simp add: upto.simps)


section \<open>Two evaluated runs\<close>

text \<open>
  The baseline configuration over 2025 to 2027 in the world whose policy model raises
  in 2026 for the scenario \<open>broken\<close>: under the name \<open>baseline\<close> the run completes
  with the summary below, under the name \<open>broken\<close> it aborts in its second year.
\<close>

lemma baseline_run_evaluated:
  "(case run_simulation_scenario faulty_world ''baseline'' (with_years 2025 2027 BASE_CONFIG) of
      Inr (Return results, written) \<Rightarrow>
        annual_summary results =
          Some [(''year'', [PInt 2025, PInt 2026, PInt 2027]),
                (''total_population'',
                   [PFloat 171700000, PFloat 173417000, PFloat 175151170]),
                (''gdp_per_capita'',
                   [PFloat 2756, PFloat (73034 / 25), PFloat (1935401 / 625)]),
                (''rice_production_total'', [PNaN, PNaN, PNaN]),
                (''wheat_production_total'', [PNaN, PNaN, PNaN]),
                (''rice_price_retail'', [PFloat 1, PFloat 1, PFloat 1]),
                (''stunting_prevalence'',
                   [PFloat (7 / 25), PFloat (7 / 25), PFloat (7 / 25)]),
                (''wasting_prevalence'',
                   [PFloat (7 / 100), PFloat (7 / 100), PFloat (7 / 100)]),
                (''avg_energy_intake'', [PFloat 0, PFloat 0, PFloat 0])]
    | other \<Rightarrow> False)"
  by code_simp

lemma broken_run_evaluated:
  "run_simulation_scenario faulty_world ''broken'' (with_years 2025 2027 BASE_CONFIG) =
     Inr (ReturnNone, [])"
  by code_simp

section \<open>The batch loop\<close>

lemma map_of_dict_set: "map_of (dict_set k v kvs) = (map_of kvs)(k \<mapsto> v)"
  by (induction kvs) auto

lemma main_loop_messages:
  "length (messages (main_loop w scenarios b)) = length (messages b) + length scenarios"
  by (induction scenarios arbitrary: b)
     (auto split: sum.splits prod.splits run_result.splits)

lemma main_loop_collects:
  "distinct (map fst scenarios) \<Longrightarrow>
   map_of (all_scenario_results (main_loop w scenarios b)) name =
     (case map_of scenarios name of
        None \<Rightarrow> map_of (all_scenario_results b) name
      | Some config \<Rightarrow>
          (case run_simulation_scenario w name config of
             Inr (Return results, written) \<Rightarrow> Some results
           | other \<Rightarrow> map_of (all_scenario_results b) name))"
proof (induction scenarios arbitrary: b)
  case Nil
  then show ?case by simp
next
  case (Cons sc rest)
  obtain n c where sc: "sc = (n, c)" by (cases sc)
  from Cons.prems sc have d: "distinct (map fst rest)" and fresh: "map_of rest n = None"
    by (auto simp: map_of_eq_None_iff)
  define b' where "b' =
    (case run_simulation_scenario w n c of
       Inl e \<Rightarrow> b\<lparr>messages := messages b @ [ErrorRunningScenario n e]\<rparr>
     | Inr (Return results, written) \<Rightarrow>
         b\<lparr>all_scenario_results := dict_set n results (all_scenario_results b),
           messages := messages b @ [CompletedSuccessfully n],
           written_files := written_files b @ written\<rparr>
     | Inr (other, written) \<Rightarrow>
         b\<lparr>messages := messages b @ [FailedToComplete n],
           written_files := written_files b @ written\<rparr>)"
  have step: "main_loop w (sc # rest) b = main_loop w rest b'"
    by (simp add: sc b'_def)
  have collected: "map_of (all_scenario_results b') name =
      (if name = n then
         (case run_simulation_scenario w n c of
            Inr (Return results, written) \<Rightarrow> Some results
          | other \<Rightarrow> map_of (all_scenario_results b) n)
       else map_of (all_scenario_results b) name)"
    by (auto simp: b'_def map_of_dict_set split: sum.splits prod.splits run_result.splits)
  show ?case
    unfolding step
    using Cons.IH [OF d, of b'] fresh collected
    by (cases "name = n")
       (simp_all add: sc split: option.splits sum.splits prod.splits run_result.splits)
qed

section \<open>Claim C2\<close>

text \<open>
  C2. If the years \<open>ys1\<close> of a scenario have been simulated and the next year \<open>y\<close>
  raises, the loop ends there whatever years were still to come, and the function
  returns \<^verbatim>\<open>None\<close> with nothing aggregated and no file written. In the batch, every
  scenario is run and leaves its message, and a scenario's results are collected or not
  by its own run alone: whether another scenario completed, aborted or let an exception
  escape changes nothing for it.
\<close>

theorem failing_year_aborts_its_scenario_only:
  assumes "year_loop ms name health ys1 socio acc = Inr (socio1, acc1)"
    and "simulate_year ms name y socio1 health acc1 = Inl e"
    and "distinct (map fst scenarios)"
    and "(other, config) \<in> set scenarios"
  shows "year_loop ms name health (ys1 @ y # ys2) socio acc = Inl (y, e) \<and>
         finish_scenario w name period parameters
           (year_loop ms name health (ys1 @ y # ys2) socio acc) = Inr (ReturnNone, []) \<and>
         length (messages (main_loop w scenarios b)) = length (messages b) + length scenarios \<and>
         map_of (all_scenario_results (main_loop w scenarios b)) other =
           (case run_simulation_scenario w other config of
              Inr (Return results, written) \<Rightarrow> Some results
            | failed \<Rightarrow> map_of (all_scenario_results b) other)"
proof -
  have abort: "year_loop ms name health (ys1 @ y # ys2) socio acc = Inl (y, e)"
    using assms(1,2) by (rule year_loop_aborts)
  have "map_of scenarios other = Some config"
    using assms(3,4) by simp
  then have "map_of (all_scenario_results (main_loop w scenarios b)) other =
      (case run_simulation_scenario w other config of
         Inr (Return results, written) \<Rightarrow> Some results
       | failed \<Rightarrow> map_of (all_scenario_results b) other)"
    using main_loop_collects [OF assms(3), of w b other] by simp
  then show ?thesis
    using abort by (simp add: finish_scenario_def main_loop_messages)
qed

text \<open>
  The theorem at work. With a policy model that raises in 2026, the year 2025 succeeds
  and the loop over 2025 to 2027 aborts in 2026. In the batch of the scenarios
  \<open>broken\<close> and \<open>baseline\<close>, the first aborts and the second is still run and
  collected.
\<close>

theorem failing_year_aborts_its_scenario_only_witness:
  "year_loop (failing_in 2026) ''broken'' current_health_state ([2025] @ 2026 # [2027])
      (initial_socioeconomic_state (PFloat 170000000) (PInt 2600)) [] =
     Inl (2026, ValueError)
   \<and> length (messages (main_loop faulty_world
        [(''broken'', with_years 2025 2027 BASE_CONFIG),
         (''baseline'', with_years 2025 2027 BASE_CONFIG)]
        \<lparr>all_scenario_results = [], messages = [], written_files = []\<rparr>)) = 2
   \<and> map_of (all_scenario_results (main_loop faulty_world
        [(''broken'', with_years 2025 2027 BASE_CONFIG),
         (''baseline'', with_years 2025 2027 BASE_CONFIG)]
        \<lparr>all_scenario_results = [], messages = [], written_files = []\<rparr>)) ''baseline'' \<noteq> None
   \<and> map_of (all_scenario_results (main_loop faulty_world
        [(''broken'', with_years 2025 2027 BASE_CONFIG),
         (''baseline'', with_years 2025 2027 BASE_CONFIG)]
        \<lparr>all_scenario_results = [], messages = [], written_files = []\<rparr>)) ''broken'' = None"
proof -
  let ?s0 = "initial_socioeconomic_state (PFloat 170000000) (PInt 2600)"
  let ?scs = "[(''broken'', with_years 2025 2027 BASE_CONFIG),
               (''baseline'', with_years 2025 2027 BASE_CONFIG)]"
  let ?b = "\<lparr>all_scenario_results = [], messages = [], written_files = []\<rparr>"
  obtain r where first:
    "year_loop (failing_in 2026) ''broken'' current_health_state [2025] ?s0 [] = Inr (?s0, [r])"
    by (simp add: simulate_year_def failing_in_def steady_models_def last_output_def
          prev_producer_prices_def initial_socioeconomic_state_def)
  have second:
    "simulate_year (failing_in 2026) ''broken'' 2026 ?s0 current_health_state [r] =
       Inl ValueError"
    using first
    by (auto simp: simulate_year_def failing_in_def steady_models_def last_output_def
          prev_producer_prices_def initial_socioeconomic_state_def)
  have d: "distinct (map fst ?scs)" by simp
  have m1: "(''baseline'', with_years 2025 2027 BASE_CONFIG) \<in> set ?scs" by simp
  have m2: "(''broken'', with_years 2025 2027 BASE_CONFIG) \<in> set ?scs" by simp
  note t1 = failing_year_aborts_its_scenario_only
    [OF first second d m1, of "[2027]" faulty_world "(PInt 2025, PInt 2027)" "PDict []" ?b]
  note t2 = failing_year_aborts_its_scenario_only
    [OF first second d m2, of "[2027]" faulty_world "(PInt 2025, PInt 2027)" "PDict []" ?b]
  have base: "\<exists>results written.
      run_simulation_scenario faulty_world ''baseline'' (with_years 2025 2027 BASE_CONFIG) =
        Inr (Return results, written)"
    using baseline_run_evaluated
    by (auto split: sum.splits prod.splits run_result.splits)
  show ?thesis
    using t1 t2 base broken_run_evaluated by auto
qed


section \<open>Claim C3\<close>

lemma get_chain_empty: "ks \<noteq> [] \<Longrightarrow> get_chain (PDict []) ks d = Inr d"
proof (induction ks)
  case Nil
  then show ?case by simp
next
  case (Cons k ks)
  then show ?case by (cases ks) simp_all
qed

lemma get_chain_entry:
  "mappings_along v ks \<Longrightarrow> ks \<noteq> [] \<Longrightarrow>
   get_chain v ks d = Inr (case path_value v ks of Some x \<Rightarrow> x | None \<Rightarrow> d)"
proof (induction v ks d rule: get_chain.induct)
  case (1 v d)
  then show ?case by simp
next
  case (2 v k d)
  then show ?case by (cases v) (simp_all split: option.splits)
next
  case (3 v k k' ks d)
  from "3.prems" obtain kvs where v: "v = PDict kvs"
    by (cases v) simp_all
  show ?case
  proof (cases "map_of kvs k")
    case None
    then show ?thesis
      using v by (simp add: get_chain_empty)
  next
    case (Some x)
    then have "mappings_along x (k' # ks)"
      using "3.prems" v by simp
    then show ?thesis
      using "3.IH" [of x] Some v by simp
  qed
qed

lemma map_raise_all:
  "(\<And>x. x \<in> set xs \<Longrightarrow> f x = Inr (g x)) \<Longrightarrow> map_raise f xs = Inr (map g xs)"
  by (induction xs) simp_all

lemma aggregate_column_entries:
  assumes "\<And>res. res \<in> set yearly_outputs \<Longrightarrow> mappings_along res path" and "path \<noteq> []"
  shows "aggregate_column yearly_outputs path =
           Inr (map (\<lambda>res. entry_at res path) yearly_outputs)"
  unfolding aggregate_column_def entry_at_def
  by (rule map_raise_all) (simp add: get_chain_entry assms)

text \<open>
  C3, as amended. Let every yearly record be a dictionary in which whatever is stored
  under the proper prefixes of the nine indicator paths is again a dictionary; keys may
  be missing or hold empty dictionaries at any depth. Then the aggregation does not
  raise, and each of its nine columns has exactly one entry per record: the value at the
  end of the path where the whole path is present, the sentinel NaN otherwise. The
  sentinel is not a zero.
\<close>

theorem aggregation_covers_every_year:
  assumes "list_all well_shaped yearly_outputs"
  shows "aggregate yearly_outputs =
           Inr (map (\<lambda>(column, path). (column, map (\<lambda>res. entry_at res path) yearly_outputs))
                  indicator_paths) \<and>
         (\<forall>(column, path) \<in> set indicator_paths.
            length (map (\<lambda>res. entry_at res path) yearly_outputs) = length yearly_outputs) \<and>
         PNaN \<noteq> PInt 0 \<and> PNaN \<noteq> PFloat 0"
proof -
  have shaped: "mappings_along res path"
    if "res \<in> set yearly_outputs" "(column, path) \<in> set indicator_paths" for res column path
    using assms that by (auto simp: list_all_iff well_shaped_def)
  have nonempty: "path \<noteq> []" if "(column, path) \<in> set indicator_paths" for column path
    using that by (auto simp: indicator_paths_def)
  have "aggregate yearly_outputs =
      Inr (map (\<lambda>(column, path). (column, map (\<lambda>res. entry_at res path) yearly_outputs))
             indicator_paths)"
    unfolding aggregate_def
  proof (rule map_raise_all)
    fix x
    assume x: "x \<in> set indicator_paths"
    obtain column path where cp: "x = (column, path)" by (cases x)
    have "aggregate_column yearly_outputs path =
        Inr (map (\<lambda>res. entry_at res path) yearly_outputs)"
      using x cp shaped nonempty by (intro aggregate_column_entries) blast+
    then show "(case x of (column, path) \<Rightarrow>
          bnd (aggregate_column yearly_outputs path) (\<lambda>entries. Inr (column, entries))) =
        Inr (case x of (column, path) \<Rightarrow>
          (column, map (\<lambda>res. entry_at res path) yearly_outputs))"
      by (simp add: cp)
  qed
  then show ?thesis by simp
qed

text \<open>
  The theorem at work: a record that has every indicator but the cereals, and a record
  that has only its year.
\<close>

theorem aggregation_covers_every_year_witness:
  "aggregate
     [PDict [(''year'', PInt 2025),
             (''socioeconomic_state'',
                PDict [(''population'', PDict [(''total_population'', PFloat 171700000)]),
                       (''economy'', PDict [(''gdp_per_capita'', PFloat 2756)])]),
             (''production_output'', PDict []),
             (''market_state'',
                PDict [(''prices'', PDict [(''retail'', PDict [(''rice'', PFloat 1)])])]),
             (''nutritional_outcomes'',
                PDict [(''nutritional_status_indicators'',
                          PDict [(''stunting_prevalence'', PFloat 0),
                                 (''wasting_prevalence'', PFloat (7 / 100))]),
                       (''average_nutrient_intake_per_capita_day'',
                          PDict [(''energy_kcal'', PFloat 2200)])])],
      PDict [(''year'', PInt 2026)]] =
   Inr [(''year'', [PInt 2025, PInt 2026]),
        (''total_population'', [PFloat 171700000, PNaN]),
        (''gdp_per_capita'', [PFloat 2756, PNaN]),
        (''rice_production_total'', [PNaN, PNaN]),
        (''wheat_production_total'', [PNaN, PNaN]),
        (''rice_price_retail'', [PFloat 1, PNaN]),
        (''stunting_prevalence'', [PFloat 0, PNaN]),
        (''wasting_prevalence'', [PFloat (7 / 100), PNaN]),
        (''avg_energy_intake'', [PFloat 2200, PNaN])]"
proof -
  let ?r1 = "PDict [(''year'', PInt 2025),
             (''socioeconomic_state'',
                PDict [(''population'', PDict [(''total_population'', PFloat 171700000)]),
                       (''economy'', PDict [(''gdp_per_capita'', PFloat 2756)])]),
             (''production_output'', PDict []),
             (''market_state'',
                PDict [(''prices'', PDict [(''retail'', PDict [(''rice'', PFloat 1)])])]),
             (''nutritional_outcomes'',
                PDict [(''nutritional_status_indicators'',
                          PDict [(''stunting_prevalence'', PFloat 0),
                                 (''wasting_prevalence'', PFloat (7 / 100))]),
                       (''average_nutrient_intake_per_capita_day'',
                          PDict [(''energy_kcal'', PFloat 2200)])])]"
  let ?r2 = "PDict [(''year'', PInt 2026)]"
  have shaped: "list_all well_shaped [?r1, ?r2]"
    by (simp add: well_shaped_def indicator_paths_def)
  show ?thesis
    using aggregation_covers_every_year [OF shaped]
    by (simp add: indicator_paths_def entry_at_def)
qed

text \<open>
  The claim as first stated covers every list of records. A record in which the cereals
  of the production output are a single number, not a dictionary by crop, makes the
  chain call \<^verbatim>\<open>.get\<close> on a float: the aggregation raises AttributeError, outside
  any \<^verbatim>\<open>try\<close> block.
\<close>

theorem aggregation_raises_counterexample:
  "aggregate
     [PDict [(''year'', PInt 2025),
             (''production_output'',
                PDict [(''total_food'', PDict [(''cereals'', PFloat 38000000)])])]] =
   Inl AttributeError"
  by (simp add: aggregate_def aggregate_column_def indicator_paths_def)


section \<open>The nutrition model\<close>

lemma floored_update_nonneg: "floored_update prev change modifier = Inr x \<Longrightarrow> nonneg x"
proof -
  assume a: "floored_update prev change modifier = Inr x"
  then obtain y where y: "py_max (PInt 0) y = Inr x"
    by (auto simp: floored_update_def bnd_Inr_iff)
  then obtain n where n: "as_num y = Inr n" and x: "x = (if ngt n (Fin 0) then y else PInt 0)"
    by (auto simp: py_max_def py_gt_def bnd_Inr_iff)
  show ?thesis
  proof (cases "ngt n (Fin 0)")
    case True
    then obtain r where "n = Fin r" "0 < r"
      by (cases n) simp_all
    then show ?thesis
      using n x True by (cases y) auto
  next
    case False
    then show ?thesis using x by simp
  qed
qed

lemma estimate_nutritional_status_shape:
  "\<exists>s w u md.
     estimate_nutritional_status m year nutrient_intake health socio =
       PDict [(''stunting_prevalence'', s), (''wasting_prevalence'', w),
              (''underweight_prevalence'', u), (''micronutrient_deficiency'', md)]
     \<and> nonneg s \<and> nonneg w"
proof (cases "estimate_nutritional_status_body m year nutrient_intake")
  case (Inl e)
  then show ?thesis
    by (simp add: estimate_nutritional_status_def default_status_def)
next
  case (Inr status)
  then obtain ps ws cs cw modifier s w u md where
    "floored_update ps cs modifier = Inr s" "floored_update ws cw modifier = Inr w"
    "status = PDict [(''stunting_prevalence'', s), (''wasting_prevalence'', w),
              (''underweight_prevalence'', u), (''micronutrient_deficiency'', md)]"
    unfolding estimate_nutritional_status_body_def bnd_Inr_iff
    by (elim exE conjE) (simp, blast)
  then show ?thesis
    using Inr by (auto simp: estimate_nutritional_status_def dest: floored_update_nonneg)
qed

lemma nutrition_simulate_shape:
  "\<exists>c ni s w u md.
     nutrition_simulate m year food prices socio health =
       PDict [(''year'', PInt year),
              (''estimated_per_capita_consumption_kg'', c),
              (''average_nutrient_intake_per_capita_day'', ni),
              (''nutritional_status_indicators'',
                 PDict [(''stunting_prevalence'', s), (''wasting_prevalence'', w),
                        (''underweight_prevalence'', u), (''micronutrient_deficiency'', md)])]
     \<and> nonneg s \<and> nonneg w"
proof -
  define food' where "food' =
    (if \<not> truthy (if food = PNone then PDict [] else food) then default_food_availability
     else (if food = PNone then PDict [] else food))"
  define prices' where "prices' = (if prices = PNone then PDict [] else prices)"
  have unfold: "nutrition_simulate m year food prices socio health =
      (case nutrition_simulate_body m year food' prices' socio health of
         Inl e \<Rightarrow> default_outcomes year | Inr outcomes \<Rightarrow> outcomes)"
    by (simp add: nutrition_simulate_def food'_def prices'_def Let_def)
  show ?thesis
  proof (cases "nutrition_simulate_body m year food' prices' socio health")
    case (Inl e)
    then show ?thesis
      unfolding unfold by (simp add: default_outcomes_def default_status_def)
  next
    case (Inr outcomes)
    then obtain c ni where "outcomes =
        PDict [(''year'', PInt year),
               (''estimated_per_capita_consumption_kg'', c),
               (''average_nutrient_intake_per_capita_day'', ni),
               (''nutritional_status_indicators'',
                  estimate_nutritional_status m year ni health socio)]"
      unfolding nutrition_simulate_body_def bnd_Inr_iff by auto
    then show ?thesis
      unfolding unfold
      using Inr estimate_nutritional_status_shape [of m year ni health socio] by auto
  qed
qed

text \<open>
  With the historical frames loaded, as the scenario runner loads them, the first
  statement of the \<^verbatim>\<open>try\<close> block raises and the status is the default one.
\<close>

lemma loaded_status_is_default:
  "estimate_nutritional_status (load_historical_data m) year nutrient_intake health socio =
     default_status"
  by (simp add: estimate_nutritional_status_def estimate_nutritional_status_body_def
        previous_rate_def load_historical_data_def)

section \<open>What a returned summary comes from\<close>

lemma init_models_parts:
  assumes "init_models w parameters = Inr ms"
  shows "\<exists>c4 sm c6 nm.
      py_get parameters ''socioeconomic_dynamics'' (PDict []) = Inr c4 \<and>
      SocioeconomicDynamicsModel c4 = Inr sm \<and>
      simulate_socioeconomic_factors ms = socio_simulate sm \<and>
      py_get parameters ''nutritional_outcomes'' (PDict []) = Inr c6 \<and>
      NutritionalOutcomesModel c6 = Inr nm \<and>
      simulate_nutritional_outcomes ms =
        (\<lambda>year food prices socio health.
           Inr (nutrition_simulate (load_historical_data nm) year food prices socio health))"
  using assms unfolding init_models_def bnd_Inr_iff
  by (elim exE conjE) auto

lemma DataFrame_same: "DataFrame d = Inr df \<Longrightarrow> df = d"
  by (auto simp: DataFrame_def split: list.splits if_splits)

lemma run_returns_summary:
  assumes "run_simulation_scenario w name config = Inr (Return results, written)"
    and "annual_summary results = Some df"
  shows "\<exists>start_year end_year parameters initial_state ms population gdp years socio outs.
      py_item config ''start_year'' = Inr start_year \<and>
      py_item config ''end_year'' = Inr end_year \<and>
      py_item config ''parameters'' = Inr parameters \<and>
      py_item config ''initial_state'' = Inr initial_state \<and>
      init_models w parameters = Inr ms \<and>
      py_get initial_state ''population'' (PFloat 170000000) = Inr population \<and>
      py_get initial_state ''gdp_per_capita'' (PInt 2600) = Inr gdp \<and>
      year_range start_year end_year = Inr years \<and>
      year_loop ms name current_health_state years
        (initial_socioeconomic_state population gdp) [] = Inr (socio, outs) \<and>
      aggregate outs = Inr df"
proof -
  from assms(1) obtain start_year end_year parameters initial_state where
    cfg: "py_item config ''start_year'' = Inr start_year"
      "py_item config ''end_year'' = Inr end_year"
      "py_item config ''parameters'' = Inr parameters"
      "py_item config ''initial_state'' = Inr initial_state" and
    rest: "(case init_models w parameters of
       Inl e \<Rightarrow> Inr (ReturnNone, [])
     | Inr ms \<Rightarrow>
         if \<not> (makedirs w (''results/'' @ name) \<and> makedirs w (''results/'' @ name @ ''/plots''))
         then Inr (ReturnNone, [])
         else
           bnd (py_get initial_state ''population'' (PFloat 170000000)) (\<lambda>population.
           bnd (py_get initial_state ''gdp_per_capita'' (PInt 2600)) (\<lambda>gdp_per_capita.
           bnd (year_range start_year end_year) (\<lambda>years.
           finish_scenario w name (start_year, end_year) parameters
             (year_loop ms name current_health_state years
                (initial_socioeconomic_state population gdp_per_capita) []))))) =
      Inr (Return results, written)"
    unfolding run_simulation_scenario_def bnd_Inr_iff by blast
  from rest obtain ms where ms: "init_models w parameters = Inr ms"
    by (cases "init_models w parameters") auto
  from rest ms obtain population gdp years where
    st: "py_get initial_state ''population'' (PFloat 170000000) = Inr population"
      "py_get initial_state ''gdp_per_capita'' (PInt 2600) = Inr gdp"
      "year_range start_year end_year = Inr years" and
    fin: "finish_scenario w name (start_year, end_year) parameters
        (year_loop ms name current_health_state years
           (initial_socioeconomic_state population gdp) []) = Inr (Return results, written)"
    by (auto simp: bnd_Inr_iff split: if_splits)
  from fin obtain socio outs where
    loop: "year_loop ms name current_health_state years
        (initial_socioeconomic_state population gdp) [] = Inr (socio, outs)"
    by (cases "year_loop ms name current_health_state years
        (initial_socioeconomic_state population gdp) []") (auto simp: finish_scenario_def)
  from fin loop have
    "bnd (aggregate outs) (\<lambda>agg.
       case post_process w name
            \<lparr>scenario_name = name, simulation_period = (start_year, end_year),
             config_summary = parameters, annual_summary = None, key_metrics = None\<rparr> agg of
         (r, wr) \<Rightarrow> Inr (Return r, wr)) = Inr (Return results, written)"
    by (auto simp: finish_scenario_def split: if_splits)
  then obtain agg where
    agg: "aggregate outs = Inr agg" and
    c: "(case post_process w name
            \<lparr>scenario_name = name, simulation_period = (start_year, end_year),
             config_summary = parameters, annual_summary = None, key_metrics = None\<rparr> agg of
         (r, wr) \<Rightarrow> (Inr (Return r, wr) :: pyexn + run_result \<times> (string \<times> dataframe) list)) =
       Inr (Return results, written)"
    by (auto simp: bnd_Inr_iff)
  have post: "fst (post_process w name
          \<lparr>scenario_name = name, simulation_period = (start_year, end_year),
           config_summary = parameters, annual_summary = None, key_metrics = None\<rparr> agg) =
       results"
    using c
    by (cases "post_process w name
          \<lparr>scenario_name = name, simulation_period = (start_year, end_year),
           config_summary = parameters, annual_summary = None, key_metrics = None\<rparr> agg")
       simp
  from post assms(2) have "df = agg"
    by (auto simp: post_process_def split: sum.splits if_splits dest: DataFrame_same)
  with cfg ms st loop agg show ?thesis by blast
qed

lemma map_raise_Inr:
  "map_raise f xs = Inr ys \<Longrightarrow> list_all2 (\<lambda>x y. f x = Inr y) xs ys"
  by (induction xs arbitrary: ys) (auto simp: bnd_Inr_iff)

lemma aggregate_Inr_column:
  assumes "aggregate outs = Inr df" and "(name, path) \<in> set indicator_paths"
  shows "aggregate_column outs path = Inr (column df name)"
proof -
  have d: "distinct (map fst indicator_paths)"
    by (simp add: indicator_paths_def)
  have l: "list_all2 (\<lambda>x y. (case x of (c, p) \<Rightarrow>
        bnd (aggregate_column outs p) (\<lambda>entries. Inr (c, entries))) = Inr y)
      indicator_paths df"
    using assms(1) unfolding aggregate_def by (rule map_raise_Inr)
  have "list_all2 (\<lambda>x y. (case x of (c, p) \<Rightarrow>
        bnd (aggregate_column outs p) (\<lambda>entries. Inr (c, entries))) = Inr y) ips df \<Longrightarrow>
      distinct (map fst ips) \<Longrightarrow> (name, path) \<in> set ips \<Longrightarrow>
      aggregate_column outs path = Inr (column df name)" for ips
  proof (induction ips df rule: list_all2_induct)
    case Nil
    then show ?case by simp
  next
    case (Cons x xs y ys)
    obtain c p where x: "x = (c, p)" by (cases x)
    from Cons.hyps(1) x obtain entries where
      e: "aggregate_column outs p = Inr entries" "y = (c, entries)"
      by (auto simp: bnd_Inr_iff)
    show ?case
    proof (cases "(name, path) = x")
      case True
      then show ?thesis using e x by (simp add: column_def)
    next
      case False
      then have mem: "(name, path) \<in> set xs" using Cons.prems by simp
      then have "name \<noteq> c" using Cons.prems(1) x by force
      moreover have "aggregate_column outs path = Inr (column ys name)"
        using Cons.IH Cons.prems(1) mem by simp
      ultimately show ?thesis using e by (simp add: column_def)
    qed
  qed
  from this [OF l d assms(2)] show ?thesis .
qed

lemma aggregate_column_Inr:
  "aggregate_column outs path = Inr cells \<Longrightarrow>
     list_all2 (\<lambda>res cell. get_chain res path PNaN = Inr cell) outs cells"
  unfolding aggregate_column_def by (rule map_raise_Inr)

lemma list_all2_nonneg:
  "list_all2 (\<lambda>res cell. f res = Inr cell) outs cells \<Longrightarrow>
   \<forall>r \<in> set outs. \<exists>v. f r = Inr v \<and> nonneg v \<Longrightarrow> list_all nonneg cells"
  by (induction outs cells rule: list_all2_induct) auto

text \<open>Every record of the loop beyond those it started with is the record of some year.\<close>

lemma year_loop_records:
  "year_loop ms name health years socio acc = Inr (socio', outs) \<Longrightarrow> r \<in> set outs \<Longrightarrow>
     r \<in> set acc \<or>
     (\<exists>year s0 s1 prev. simulate_year ms name year s0 health prev = Inr (s1, r))"
proof (induction years arbitrary: socio acc)
  case Nil
  then show ?case by simp
next
  case (Cons y ys)
  from Cons.prems(1) obtain s1 r1 where
    step: "simulate_year ms name y socio health acc = Inr (s1, r1)" and
    rest: "year_loop ms name health ys s1 (acc @ [r1]) = Inr (socio', outs)"
    by (auto split: sum.splits)
  from Cons.IH [OF rest Cons.prems(2)] step show ?case by auto
qed

section \<open>Claim C4\<close>

text \<open>
  C4 fails on the code. Whatever the year and the intake, the status estimated by the
  model that the scenario runner sets up is the default one: stunting \<open>0.28\<close>, wasting
  \<open>0.07\<close>. The baseline run over 2025 to 2027 shows it in its summary. Neither the
  model nor the runner hands the status of one year to the next; the update that the
  claim describes would have given \<open>0.2819\<close> for the stunting of 2026 (the energy intake
  is not adequate and the modifier of the baseline is \<open>0.95\<close>).
\<close>

theorem nutritional_status_repeats_the_default:
  "estimate_nutritional_status (load_historical_data m) year nutrient_intake health socio =
     default_status
   \<and> get_chain default_status [''stunting_prevalence''] PNaN = Inr (PFloat (28 / 100))
   \<and> get_chain default_status [''wasting_prevalence''] PNaN = Inr (PFloat (7 / 100))
   \<and> (case run_simulation_scenario faulty_world ''baseline''
              (with_years 2025 2027 BASE_CONFIG) of
         Inr (Return results, written) \<Rightarrow>
           map_option (\<lambda>df. column df ''stunting_prevalence'') (annual_summary results) =
             Some [PFloat (28 / 100), PFloat (28 / 100), PFloat (28 / 100)]
       | other \<Rightarrow> False)
   \<and> bnd (bnd (NutritionalOutcomesModel
              (PDict [(''health_access_improvement_rate'', PFloat (1 / 100)),
                      (''base_nutrient_req'',
                         PDict [(''energy_kcal'', PInt 2100), (''protein_g'', PInt 50)])]))
            health_access_modifier)
        (floored_update (PFloat (28 / 100)) (stunting_change False False)) =
       Inr (PFloat (2819 / 10000))"
proof -
  have "(case run_simulation_scenario faulty_world ''baseline''
              (with_years 2025 2027 BASE_CONFIG) of
         Inr (Return results, written) \<Rightarrow>
           map_option (\<lambda>df. column df ''stunting_prevalence'') (annual_summary results) =
             Some [PFloat (28 / 100), PFloat (28 / 100), PFloat (28 / 100)]
       | other \<Rightarrow> False)"
    using baseline_run_evaluated
    by (auto simp: column_def split: sum.splits prod.splits run_result.splits)
  moreover have "bnd (bnd (NutritionalOutcomesModel
              (PDict [(''health_access_improvement_rate'', PFloat (1 / 100)),
                      (''base_nutrient_req'',
                         PDict [(''energy_kcal'', PInt 2100), (''protein_g'', PInt 50)])]))
            health_access_modifier)
        (floored_update (PFloat (28 / 100)) (stunting_change False False)) =
       Inr (PFloat (2819 / 10000))"
    by (simp add: NutritionalOutcomesModel_def health_access_modifier_def floored_update_def
          stunting_change_def py_mul_def py_sub_def py_add_def py_max_def py_gt_def)
  ultimately show ?thesis
    by (simp add: loaded_status_is_default) (simp add: default_status_def)
qed

section \<open>Claim C5\<close>

text \<open>
  C5. For every nutrition model and all inputs, the stunting and wasting prevalence in
  the outcomes of a year are numbers not below zero. Hence in every summary that a
  scenario run returns, in any world and for any configuration, every entry of the two
  prevalence columns is such a number.
\<close>

theorem prevalence_is_never_negative:
  assumes "run_simulation_scenario w name config = Inr (Return results, written)"
    and "annual_summary results = Some df"
  shows "(\<exists>s p. get_chain (nutrition_simulate m year food prices socio health)
                   [''nutritional_status_indicators'', ''stunting_prevalence''] PNaN = Inr s \<and>
                 nonneg s \<and>
                 get_chain (nutrition_simulate m year food prices socio health)
                   [''nutritional_status_indicators'', ''wasting_prevalence''] PNaN = Inr p \<and>
                 nonneg p) \<and>
         list_all nonneg (column df ''stunting_prevalence'') \<and>
         list_all nonneg (column df ''wasting_prevalence'')"
proof -
  have model: "\<exists>s p. get_chain (nutrition_simulate m year food prices socio health)
                   [''nutritional_status_indicators'', ''stunting_prevalence''] PNaN = Inr s \<and>
                 nonneg s \<and>
                 get_chain (nutrition_simulate m year food prices socio health)
                   [''nutritional_status_indicators'', ''wasting_prevalence''] PNaN = Inr p \<and>
                 nonneg p" for m year food prices socio health
    using nutrition_simulate_shape [of m year food prices socio health] by auto
  from run_returns_summary [OF assms] obtain ms years s0 socio' outs parameters where
    ms: "init_models w parameters = Inr ms" and
    loop: "year_loop ms name current_health_state years s0 [] = Inr (socio', outs)" and
    agg: "aggregate outs = Inr df"
    by blast
  from init_models_parts [OF ms] obtain nm where nm:
    "simulate_nutritional_outcomes ms =
        (\<lambda>year food prices socio health.
           Inr (nutrition_simulate (load_historical_data nm) year food prices socio health))"
    by blast
  have rec: "\<exists>s p.
      get_chain r [''nutritional_outcomes'', ''nutritional_status_indicators'',
        ''stunting_prevalence''] PNaN = Inr s \<and> nonneg s \<and>
      get_chain r [''nutritional_outcomes'', ''nutritional_status_indicators'',
        ''wasting_prevalence''] PNaN = Inr p \<and> nonneg p" if "r \<in> set outs" for r
  proof -
    from year_loop_records [OF loop that] obtain year a b prev where
      "simulate_year ms name year a current_health_state prev = Inr (b, r)"
      by auto
    from simulate_year_record [OF this] obtain p c pr s mk fa rp n where
      r: "r = PDict [(''year'', PInt year), (''policy_impacts'', p),
               (''climate_resilience_output'', c),
               (''socioeconomic_state'', b),
               (''production_output'', pr),
               (''supply_chain_output'', s),
               (''market_state'', mk),
               (''nutritional_outcomes'', n)]" and
      n: "simulate_nutritional_outcomes ms year fa rp b current_health_state = Inr n"
      by blast
    from n nm have "n = nutrition_simulate (load_historical_data nm) year fa rp b
        current_health_state"
      by simp
    then show ?thesis
      using r nutrition_simulate_shape [of "load_historical_data nm" year fa rp b
          current_health_state]
      by auto
  qed
  have col: "list_all nonneg (column df cname)"
    if "(cname, [''nutritional_outcomes'', ''nutritional_status_indicators'', key])
          \<in> set indicator_paths"
      and "\<And>r. r \<in> set outs \<Longrightarrow> \<exists>v.
        get_chain r [''nutritional_outcomes'', ''nutritional_status_indicators'', key] PNaN =
          Inr v \<and> nonneg v"
    for cname key
  proof -
    from aggregate_column_Inr [OF aggregate_Inr_column [OF agg that(1)]]
    have "list_all2 (\<lambda>res cell.
        get_chain res [''nutritional_outcomes'', ''nutritional_status_indicators'', key] PNaN =
          Inr cell) outs (column df cname)" .
    then show ?thesis
      using that(2) by (intro list_all2_nonneg) auto
  qed
  have "list_all nonneg (column df ''stunting_prevalence'')"
    by (rule col) (use rec in \<open>auto simp: indicator_paths_def\<close>)
  moreover have "list_all nonneg (column df ''wasting_prevalence'')"
    by (rule col) (use rec in \<open>auto simp: indicator_paths_def\<close>)
  ultimately show ?thesis using model by blast
qed

text \<open>The theorem at work on the baseline run over 2025 to 2027.\<close>

theorem prevalence_is_never_negative_witness:
  "(case run_simulation_scenario faulty_world ''baseline'' (with_years 2025 2027 BASE_CONFIG) of
      Inr (Return results, written) \<Rightarrow>
        (case annual_summary results of
           Some df \<Rightarrow>
             column df ''stunting_prevalence'' =
               [PFloat (7 / 25), PFloat (7 / 25), PFloat (7 / 25)] \<and>
             list_all nonneg (column df ''stunting_prevalence'') \<and>
             list_all nonneg (column df ''wasting_prevalence'')
         | None \<Rightarrow> False)
    | other \<Rightarrow> False)"
proof -
  from baseline_run_evaluated obtain results written df where
    run: "run_simulation_scenario faulty_world ''baseline'' (with_years 2025 2027 BASE_CONFIG) =
       Inr (Return results, written)" and
    df: "annual_summary results = Some df" and
    col: "column df ''stunting_prevalence'' = [PFloat (7 / 25), PFloat (7 / 25), PFloat (7 / 25)]"
    by (auto simp: column_def split: sum.splits prod.splits run_result.splits)
  from prevalence_is_never_negative [OF run df]
  have "list_all nonneg (column df ''stunting_prevalence'')"
    "list_all nonneg (column df ''wasting_prevalence'')"
    by simp_all
  with run df col show ?thesis by simp
qed


section \<open>Claim C6\<close>

lemma py_item_get: "py_item v k = Inr x \<Longrightarrow> py_get v k d = Inr x"
  by (cases v) (auto split: option.splits)

text \<open>
  One step of the socioeconomic model multiplies the population it finds in the carried
  state by one plus the growth rate of its parameters.
\<close>

lemma socio_population_step:
  assumes "socio_simulate sm year st gov clim = Inr st'"
    and "py_get (population_params sm) ''annual_growth_rate'' (PFloat (1 / 100)) = Inr (PFloat g)"
    and "py_item st ''population'' = Inr pd"
    and "py_item pd ''total_population'' = Inr (PFloat x)"
  shows "\<exists>pd'. py_item st' ''population'' = Inr pd' \<and>
           py_item pd' ''total_population'' = Inr (PFloat (x * (1 + g)))"
proof -
  from assms(3) obtain kvs where st: "st = PDict kvs" "map_of kvs ''population'' = Some pd"
    by (cases st) (auto split: option.splits)
  from assms(4) obtain pvs where pd: "pd = PDict pvs"
      "map_of pvs ''total_population'' = Some (PFloat x)"
    by (cases pd) (auto split: option.splits)
  have pop: "simulate_population_dynamics sm year pd =
      Inr (PDict [(''total_population'', PFloat (x * (1 + g))),
                  (''urban_population'', PFloat (x * (1 + g) * (4 / 10))),
                  (''rural_population'', PFloat (x * (1 + g) * (6 / 10))),
                  (''age_distribution'',
                     PDict [(''0-14'', PFloat (28 / 100)), (''15-64'', PFloat (67 / 100)),
                            (''65+'', PFloat (5 / 100))])])"
    using assms(2) pd
    by (simp add: simulate_population_dynamics_def number_in_def py_add_def py_mul_def)
  from assms(1) obtain e i s l where
    "st' = PDict [(''year'', PInt year),
                  (''population'',
                     PDict [(''total_population'', PFloat (x * (1 + g))),
                            (''urban_population'', PFloat (x * (1 + g) * (4 / 10))),
                            (''rural_population'', PFloat (x * (1 + g) * (6 / 10))),
                            (''age_distribution'',
                               PDict [(''0-14'', PFloat (28 / 100)),
                                      (''15-64'', PFloat (67 / 100)),
                                      (''65+'', PFloat (5 / 100))])]),
                  (''economy'', e), (''income_distribution'', i),
                  (''social_safety_nets'', s), (''livelihoods'', l)]"
    unfolding socio_simulate_def Let_def
    by (auto simp: st pop bnd_Inr_iff)
  then show ?thesis by simp
qed

lemma aggregate_nrows:
  assumes "aggregate outs = Inr df"
  shows "nrows df = length outs"
proof -
  have "list_all2 (\<lambda>x y. (case x of (c, p) \<Rightarrow>
        bnd (aggregate_column outs p) (\<lambda>entries. Inr (c, entries))) = Inr y)
      indicator_paths df"
    using assms unfolding aggregate_def by (rule map_raise_Inr)
  then obtain y ys entries where "df = y # ys" "aggregate_column outs [''year''] = Inr entries"
    "y = (''year'', entries)"
    by (auto simp: indicator_paths_def list_all2_Cons1 bnd_Inr_iff)
  then show ?thesis
    using list_all2_lengthD [OF aggregate_column_Inr] by (simp add: nrows_def)
qed

lemma baseline_items:
  "py_item (with_years 2025 2027 BASE_CONFIG) ''start_year'' = Inr (PInt 2025)"
  "py_item (with_years 2025 2027 BASE_CONFIG) ''end_year'' = Inr (PInt 2027)"
  "py_item (with_years 2025 2027 BASE_CONFIG) ''initial_state'' = Inr i \<Longrightarrow>
     py_get i ''population'' (PFloat 170000000) = Inr (PFloat 170000000)"
  "py_item (with_years 2025 2027 BASE_CONFIG) ''parameters'' = Inr p \<Longrightarrow>
     py_get p ''socioeconomic_dynamics'' (PDict []) = Inr c \<Longrightarrow>
     SocioeconomicDynamicsModel c = Inr sm \<Longrightarrow> population_params sm = PDict []"
  by (auto simp: with_years_def BASE_CONFIG_def SocioeconomicDynamicsModel_def)

text \<open>
  C6. Take the baseline configuration with the years 2025 to 2027; its initial
  population is \<open>170e6\<close>. If its run returns a summary, in any world, the summary has
  3 rows, its year column is 2025, 2026, 2027, and its population column starts from
  the initial population times \<open>1 + g\<close> and multiplies by \<open>1 + g\<close> from each year to the
  next, where \<open>g\<close> is the growth rate that the socioeconomic model reads from its
  parameters (\<open>0.01\<close>). Floats are idealised to reals, so the equalities are exact.
\<close>

theorem baseline_population_grows_by_the_rate:
  assumes "run_simulation_scenario w name (with_years 2025 2027 BASE_CONFIG) =
             Inr (Return results, written)"
    and "annual_summary results = Some df"
  shows "nrows df = 3 \<and>
         column df ''year'' = [PInt 2025, PInt 2026, PInt 2027] \<and>
         (\<exists>g p0 p1 p2.
            bnd (bnd (get_chain BASE_CONFIG [''parameters'', ''socioeconomic_dynamics'']
                        (PDict [])) SocioeconomicDynamicsModel)
              (\<lambda>sm. py_get (population_params sm) ''annual_growth_rate'' (PFloat (1 / 100))) =
              Inr (PFloat g) \<and>
            column df ''total_population'' = [PFloat p0, PFloat p1, PFloat p2] \<and>
            p0 = 170000000 * (1 + g) \<and> p1 = p0 * (1 + g) \<and> p2 = p1 * (1 + g))"
proof -
  let ?cfg = "with_years 2025 2027 BASE_CONFIG"
  from run_returns_summary [OF assms] obtain start_year end_year parameters initial_state
      ms population gdp years socio outs where
    cfg: "py_item ?cfg ''start_year'' = Inr start_year"
      "py_item ?cfg ''end_year'' = Inr end_year"
      "py_item ?cfg ''parameters'' = Inr parameters"
      "py_item ?cfg ''initial_state'' = Inr initial_state" and
    ms: "init_models w parameters = Inr ms" and
    pop: "py_get initial_state ''population'' (PFloat 170000000) = Inr population" and
    range: "year_range start_year end_year = Inr years" and
    loop: "year_loop ms name current_health_state years
        (initial_socioeconomic_state population gdp) [] = Inr (socio, outs)" and
    agg: "aggregate outs = Inr df"
    by blast
  have "start_year = PInt 2025" "end_year = PInt 2027"
    using cfg(1,2) by (simp_all add: baseline_items)
  then have years: "years = [2025, 2026, 2027]"
    using range by (simp add: year_range_def upto.simps)
  have population: "population = PFloat 170000000"
    using pop baseline_items(3) [OF cfg(4)] by simp
  from init_models_parts [OF ms] obtain c4 sm where
    sm: "py_get parameters ''socioeconomic_dynamics'' (PDict []) = Inr c4"
      "SocioeconomicDynamicsModel c4 = Inr sm"
      "simulate_socioeconomic_factors ms = socio_simulate sm"
    by blast
  have params: "population_params sm = PDict []"
    using baseline_items(4) [OF cfg(3) sm(1,2)] .
  have g: "py_get (population_params sm) ''annual_growth_rate'' (PFloat (1 / 100)) =
      Inr (PFloat (1 / 100))"
    by (simp add: params)
  let ?s0 = "initial_socioeconomic_state population gdp"
  from loop obtain s1 r1 s2 r2 s3 r3 where
    y1: "simulate_year ms name 2025 ?s0 current_health_state [] = Inr (s1, r1)" and
    y2: "simulate_year ms name 2026 s1 current_health_state [r1] = Inr (s2, r2)" and
    y3: "simulate_year ms name 2027 s2 current_health_state [r1, r2] = Inr (s3, r3)" and
    outs: "outs = [r1, r2, r3]"
    unfolding years by (auto split: sum.splits)
  have step: "\<exists>pd'. py_item b ''population'' = Inr pd' \<and>
        py_item pd' ''total_population'' = Inr (PFloat (x * (1 + 1 / 100))) \<and>
        get_chain r [''year''] PNaN = Inr (PInt year) \<and>
        get_chain r [''socioeconomic_state'', ''population'', ''total_population''] PNaN =
          Inr (PFloat (x * (1 + 1 / 100)))"
    if "simulate_year ms name year a current_health_state prev = Inr (b, r)"
      and "py_item a ''population'' = Inr pd"
      and "py_item pd ''total_population'' = Inr (PFloat x)"
    for year a prev b r pd x
  proof -
    from simulate_year_record [OF that(1)] obtain p c pr s m n where
      r: "r = PDict [(''year'', PInt year), (''policy_impacts'', p),
               (''climate_resilience_output'', c),
               (''socioeconomic_state'', b),
               (''production_output'', pr),
               (''supply_chain_output'', s),
               (''market_state'', m),
               (''nutritional_outcomes'', n)]" and
      socio: "simulate_socioeconomic_factors ms year a p c = Inr b"
      by blast
    from socio sm(3) have "socio_simulate sm year a p c = Inr b" by simp
    from socio_population_step [OF this g that(2,3)] obtain pd' where
      pd': "py_item b ''population'' = Inr pd'"
        "py_item pd' ''total_population'' = Inr (PFloat (x * (1 + 1 / 100)))"
      by blast
    then show ?thesis
      using r by (auto simp: py_item_get)
  qed
  have init: "py_item ?s0 ''population'' = Inr (PDict [(''total_population'', PFloat 170000000)])"
    "py_item (PDict [(''total_population'', PFloat 170000000)]) ''total_population'' =
       Inr (PFloat 170000000)"
    by (simp_all add: initial_socioeconomic_state_def population)
  from step [OF y1 init] obtain pd1 where
    f1: "py_item s1 ''population'' = Inr pd1"
      "py_item pd1 ''total_population'' = Inr (PFloat (170000000 * (1 + 1 / 100)))"
      "get_chain r1 [''year''] PNaN = Inr (PInt 2025)"
      "get_chain r1 [''socioeconomic_state'', ''population'', ''total_population''] PNaN =
         Inr (PFloat (170000000 * (1 + 1 / 100)))"
    by blast
  from step [OF y2 f1(1,2)] obtain pd2 where
    f2: "py_item s2 ''population'' = Inr pd2"
      "py_item pd2 ''total_population'' =
         Inr (PFloat (170000000 * (1 + 1 / 100) * (1 + 1 / 100)))"
      "get_chain r2 [''year''] PNaN = Inr (PInt 2026)"
      "get_chain r2 [''socioeconomic_state'', ''population'', ''total_population''] PNaN =
         Inr (PFloat (170000000 * (1 + 1 / 100) * (1 + 1 / 100)))"
    by blast
  from step [OF y3 f2(1,2)] have
    f3: "get_chain r3 [''year''] PNaN = Inr (PInt 2027)"
      "get_chain r3 [''socioeconomic_state'', ''population'', ''total_population''] PNaN =
         Inr (PFloat (170000000 * (1 + 1 / 100) * (1 + 1 / 100) * (1 + 1 / 100)))"
    by blast+
  have ycol: "aggregate_column outs [''year''] = Inr (column df ''year'')"
    by (rule aggregate_Inr_column [OF agg]) (simp add: indicator_paths_def)
  have pcol: "aggregate_column outs [''socioeconomic_state'', ''population'', ''total_population'']
      = Inr (column df ''total_population'')"
    by (rule aggregate_Inr_column [OF agg]) (simp add: indicator_paths_def)
  have "column df ''year'' = [PInt 2025, PInt 2026, PInt 2027]"
    using ycol f1(3) f2(3) f3(1)
    unfolding aggregate_column_def outs by (simp add: bnd_def)
  moreover have "column df ''total_population'' =
      [PFloat (170000000 * (1 + 1 / 100)),
       PFloat (170000000 * (1 + 1 / 100) * (1 + 1 / 100)),
       PFloat (170000000 * (1 + 1 / 100) * (1 + 1 / 100) * (1 + 1 / 100))]"
    using pcol f1(4) f2(4) f3(2)
    unfolding aggregate_column_def outs by (simp add: bnd_def)
  moreover have "nrows df = 3"
    using aggregate_nrows [OF agg] outs by simp
  moreover have "\<exists>g p0 p1 p2.
      bnd (bnd (get_chain BASE_CONFIG [''parameters'', ''socioeconomic_dynamics'']
                  (PDict [])) SocioeconomicDynamicsModel)
        (\<lambda>sm. py_get (population_params sm) ''annual_growth_rate'' (PFloat (1 / 100))) =
        Inr (PFloat g) \<and>
      [PFloat (170000000 * (1 + 1 / 100)),
       PFloat (170000000 * (1 + 1 / 100) * (1 + 1 / 100)),
       PFloat (170000000 * (1 + 1 / 100) * (1 + 1 / 100) * (1 + 1 / 100))] =
        [PFloat p0, PFloat p1, PFloat p2] \<and>
      p0 = 170000000 * (1 + g) \<and> p1 = p0 * (1 + g) \<and> p2 = p1 * (1 + g)"
    by (rule exI [where x = "1 / 100"], rule exI [where x = "170000000 * (1 + 1 / 100)"],
        rule exI [where x = "170000000 * (1 + 1 / 100) * (1 + 1 / 100)"],
        rule exI [where x = "170000000 * (1 + 1 / 100) * (1 + 1 / 100) * (1 + 1 / 100)"])
       (simp add: BASE_CONFIG_def SocioeconomicDynamicsModel_def)
  ultimately show ?thesis by simp
qed

text \<open>The theorem at work on the baseline run in the world of the examples.\<close>

theorem baseline_population_grows_by_the_rate_witness:
  "(case run_simulation_scenario faulty_world ''baseline'' (with_years 2025 2027 BASE_CONFIG) of
      Inr (Return results, written) \<Rightarrow>
        (case annual_summary results of
           Some df \<Rightarrow>
             nrows df = 3 \<and>
             column df ''year'' = [PInt 2025, PInt 2026, PInt 2027] \<and>
             column df ''total_population'' =
               [PFloat 171700000, PFloat 173417000, PFloat 175151170]
         | None \<Rightarrow> False)
    | other \<Rightarrow> False)"
proof -
  from baseline_run_evaluated obtain results written df where
    run: "run_simulation_scenario faulty_world ''baseline'' (with_years 2025 2027 BASE_CONFIG) =
       Inr (Return results, written)" and
    df: "annual_summary results = Some df" and
    col: "column df ''total_population'' =
       [PFloat 171700000, PFloat 173417000, PFloat 175151170]"
    by (auto simp: column_def split: sum.splits prod.splits run_result.splits)
  from baseline_population_grows_by_the_rate [OF run df]
  have "nrows df = 3" "column df ''year'' = [PInt 2025, PInt 2026, PInt 2027]"
    by simp_all
  with run df col show ?thesis by simp
qed


section \<open>Claim C7\<close>

lemma dict_set_fresh: "k \<notin> fst ` set kvs \<Longrightarrow> dict_set k v kvs = kvs @ [(k, v)]"
  by (induction kvs) auto

text \<open>
  With distinct scenario names, the collected results are those of the scenarios whose
  run returned results, in the order of the batch.
\<close>

lemma main_loop_results:
  "distinct (map fst scenarios) \<Longrightarrow>
   fst ` set scenarios \<inter> fst ` set (all_scenario_results b) = {} \<Longrightarrow>
   all_scenario_results (main_loop w scenarios b) =
     all_scenario_results b @ concat (map (collected_of w) scenarios)"
proof (induction scenarios arbitrary: b)
  case Nil
  then show ?case by simp
next
  case (Cons sc rest)
  obtain n c where sc: "sc = (n, c)" by (cases sc)
  define b' where "b' =
    (case run_simulation_scenario w n c of
       Inl e \<Rightarrow> b\<lparr>messages := messages b @ [ErrorRunningScenario n e]\<rparr>
     | Inr (Return results, written) \<Rightarrow>
         b\<lparr>all_scenario_results := dict_set n results (all_scenario_results b),
           messages := messages b @ [CompletedSuccessfully n],
           written_files := written_files b @ written\<rparr>
     | Inr (other, written) \<Rightarrow>
         b\<lparr>messages := messages b @ [FailedToComplete n],
           written_files := written_files b @ written\<rparr>)"
  have step: "main_loop w (sc # rest) b = main_loop w rest b'"
    by (simp add: sc b'_def)
  have fresh: "n \<notin> fst ` set (all_scenario_results b)"
    using Cons.prems(2) sc by auto
  have results: "all_scenario_results b' = all_scenario_results b @ collected_of w sc"
    using fresh
    by (auto simp: b'_def collected_of_def sc dict_set_fresh
          split: sum.splits prod.splits run_result.splits)
  have d: "distinct (map fst rest)" and "n \<notin> fst ` set rest"
    using Cons.prems(1) sc by auto
  then have disjoint: "fst ` set rest \<inter> fst ` set (all_scenario_results b') = {}"
    using Cons.prems(2) results
    by (auto simp: collected_of_def sc split: sum.splits prod.splits run_result.splits)
  show ?case
    unfolding step using Cons.IH [OF d disjoint] results by simp
qed

lemma main_loop_messages_of:
  "messages (main_loop w scenarios b) =
     messages b @ map (\<lambda>sc. case run_simulation_scenario w (fst sc) (snd sc) of
                               Inl e \<Rightarrow> ErrorRunningScenario (fst sc) e
                             | Inr (Return results, written) \<Rightarrow> CompletedSuccessfully (fst sc)
                             | Inr (other, written) \<Rightarrow> FailedToComplete (fst sc)) scenarios"
proof (induction scenarios arbitrary: b)
  case Nil
  then show ?case by simp
next
  case (Cons sc rest)
  obtain n c where sc: "sc = (n, c)" by (cases sc)
  show ?case
    unfolding sc
    by (cases "run_simulation_scenario w n c")
       (auto simp: Cons.IH split: prod.splits run_result.splits)
qed

text \<open>The frames and warnings of the comparison loop, scenario by scenario.\<close>

lemma comparison_loop_frames:
  "fst (comparison_loop rs) =
     concat (map (\<lambda>(name, results).
        case annual_summary results of
          Some df \<Rightarrow> if \<not> df_empty df then [with_scenario name df] else []
        | None \<Rightarrow> []) rs)"
  by (induction rs) (auto split: prod.splits option.splits)

lemma comparison_loop_warnings:
  "snd (comparison_loop rs) =
     concat (map (\<lambda>(name, results).
        case annual_summary results of
          Some df \<Rightarrow> if \<not> df_empty df then [] else [IncompleteResults name]
        | None \<Rightarrow> [IncompleteResults name]) rs)"
  by (induction rs) (auto split: prod.splits option.splits)

lemma nrows_with_scenario: "nrows (with_scenario name df) = nrows df"
  by (cases df) (auto simp: with_scenario_def nrows_def)

lemma rows_of_empty: "df_empty df \<Longrightarrow> rows_of (with_scenario name df) = []"
  by (auto simp: df_empty_def rows_of_def nrows_with_scenario) (simp add: nrows_def)

text \<open>Every row of a labelled frame carries the label.\<close>

lemma scenario_cell:
  "i < n \<Longrightarrow>
   map_of (map (\<lambda>(column, cells). (column, cells ! i))
             (dict_set ''scenario'' (replicate n (PStr name)) df)) ''scenario'' =
     Some (PStr name)"
  by (induction df) auto

lemma labelled_rows:
  "row \<in> set (rows_of (with_scenario name df)) \<Longrightarrow> map_of row ''scenario'' = Some (PStr name)"
proof -
  assume "row \<in> set (rows_of (with_scenario name df))"
  then obtain i where i: "i < nrows df" "row = row_at (with_scenario name df) i"
    by (auto simp: rows_of_def nrows_with_scenario)
  then show ?thesis
    by (simp add: row_at_def with_scenario_def scenario_cell)
qed

text \<open>The table of the batch is the contributions of its scenarios, in order.\<close>

lemma table_rows_main:
  assumes "distinct (map fst scenarios)"
  shows "table_rows (main w scenarios) = concat (map (contribution w) scenarios)"
proof -
  let ?b = "main_loop w scenarios \<lparr>all_scenario_results = [], messages = [], written_files = []\<rparr>"
  have results: "all_scenario_results ?b = concat (map (collected_of w) scenarios)"
    using main_loop_results [OF assms, of "\<lparr>all_scenario_results = [], messages = [],
      written_files = []\<rparr>" w] by simp
  have rows: "concat (map rows_of (fst (comparison_loop (concat (map (collected_of w) scs))))) =
      concat (map (contribution w) scs)" for scs
  proof (induction scs)
    case Nil
    then show ?case by simp
  next
    case (Cons sc rest)
    have "concat (map rows_of (fst (comparison_loop (collected_of w sc)))) = contribution w sc"
      by (auto simp: collected_of_def contribution_def comparison_loop_frames rows_of_empty
            split: sum.splits prod.splits run_result.splits option.splits)
    then show ?case
      using Cons.IH by (simp add: comparison_loop_frames)
  qed
  have "table_rows (main w scenarios) =
      concat (map rows_of (fst (comparison_loop (all_scenario_results ?b))))"
    by (auto simp: main_def table_rows_def Let_def split: prod.splits)
  then show ?thesis
    using rows [of scenarios] results by simp
qed

lemma diagnostics_main:
  "set (diagnostics (main w scenarios)) \<supseteq>
     set (messages (main_loop w scenarios
            \<lparr>all_scenario_results = [], messages = [], written_files = []\<rparr>)) \<union>
     set (snd (comparison_loop (all_scenario_results (main_loop w scenarios
            \<lparr>all_scenario_results = [], messages = [], written_files = []\<rparr>))))"
  by (auto simp: main_def Let_def split: prod.splits)

text \<open>
  C7. Let the scenario names be distinct, as the keys of \<^verbatim>\<open>SCENARIOS\<close> are. The
  comparison table is the concatenation, in batch order, of what each scenario
  contributes: the rows of its annual summary, labelled with its name, if its run
  returned results with a summary, and nothing otherwise. So every row carries the name of
  the one scenario it comes from, a scenario whose run failed has no row, and every
  scenario without rows in the table is named by a diagnostic message: that it failed to
  complete, that running it raised, or that its results are incomplete.
\<close>

theorem comparison_table_is_labelled_and_complete:
  assumes "distinct (map fst scenarios)"
  shows "table_rows (main w scenarios) = concat (map (contribution w) scenarios) \<and>
         (\<forall>scenario \<in> set scenarios. \<forall>row \<in> set (contribution w scenario).
            map_of row ''scenario'' = Some (PStr (fst scenario))) \<and>
         (\<forall>scenario \<in> set scenarios.
            (\<forall>results written.
               run_simulation_scenario w (fst scenario) (snd scenario) \<noteq>
                 Inr (Return results, written)) \<longrightarrow>
            contribution w scenario = []) \<and>
         (\<forall>scenario \<in> set scenarios.
            contribution w scenario = [] \<longrightarrow>
            (\<exists>m \<in> set (diagnostics (main w scenarios)). names (fst scenario) m))"
proof (intro conjI ballI impI)
  show "table_rows (main w scenarios) = concat (map (contribution w) scenarios)"
    using assms by (rule table_rows_main)
next
  fix scenario row
  assume "scenario \<in> set scenarios" "row \<in> set (contribution w scenario)"
  then show "map_of row ''scenario'' = Some (PStr (fst scenario))"
    by (auto simp: contribution_def labelled_rows
          split: sum.splits prod.splits run_result.splits option.splits)
next
  fix scenario
  assume "scenario \<in> set scenarios"
    "\<forall>results written.
       run_simulation_scenario w (fst scenario) (snd scenario) \<noteq> Inr (Return results, written)"
  then show "contribution w scenario = []"
    by (auto simp: contribution_def split: sum.splits prod.splits run_result.splits)
next
  fix scenario
  assume mem: "scenario \<in> set scenarios" and none: "contribution w scenario = []"
  let ?b = "main_loop w scenarios \<lparr>all_scenario_results = [], messages = [], written_files = []\<rparr>"
  have results: "all_scenario_results ?b = concat (map (collected_of w) scenarios)"
    using main_loop_results [OF assms, of "\<lparr>all_scenario_results = [], messages = [],
      written_files = []\<rparr>" w] by simp
  show "\<exists>m \<in> set (diagnostics (main w scenarios)). names (fst scenario) m"
  proof (cases "run_simulation_scenario w (fst scenario) (snd scenario)")
    case (Inl e)
    then have "ErrorRunningScenario (fst scenario) e \<in> set (messages ?b)"
      using mem by (force simp: main_loop_messages_of)
    then show ?thesis
      using diagnostics_main [of w scenarios] by (force simp: names_def)
  next
    case (Inr rw)
    obtain r written where rw: "rw = (r, written)" by (cases rw)
    show ?thesis
    proof (cases r)
      case (Return results)
      then have c: "(fst scenario, results) \<in> set (all_scenario_results ?b)"
        using mem Inr rw unfolding results by (force simp: collected_of_def)
      have "rows_of (with_scenario (fst scenario) df) = [] \<Longrightarrow> df_empty df" for df
        by (cases df) (auto simp: rows_of_def nrows_with_scenario df_empty_def)
      then have "(case annual_summary results of
            Some df \<Rightarrow> if \<not> df_empty df then [] else [IncompleteResults (fst scenario)]
          | None \<Rightarrow> [IncompleteResults (fst scenario)]) = [IncompleteResults (fst scenario)]"
        using none Inr rw Return
        by (auto simp: contribution_def split: option.splits)
      then have "IncompleteResults (fst scenario) \<in> set (snd (comparison_loop
          (all_scenario_results ?b)))"
        using c unfolding comparison_loop_warnings by force
      then show ?thesis
        using diagnostics_main [of w scenarios] by (force simp: names_def)
    next
      case ReturnNone
      then have "FailedToComplete (fst scenario) \<in> set (messages ?b)"
        using mem Inr rw by (force simp: main_loop_messages_of)
      then show ?thesis
        using diagnostics_main [of w scenarios] by (force simp: names_def)
    next
      case ReturnEmpty
      then have "FailedToComplete (fst scenario) \<in> set (messages ?b)"
        using mem Inr rw by (force simp: main_loop_messages_of)
      then show ?thesis
        using diagnostics_main [of w scenarios] by (force simp: names_def)
    qed
  qed
qed

text \<open>
  The theorem at work on the batch of the scenario \<open>broken\<close>, which aborts in its
  second year, and the scenario \<open>baseline\<close>, which completes its three years: the table
  has the three rows of the baseline, and a message names the aborted scenario.
\<close>

theorem comparison_table_is_labelled_and_complete_witness:
  "length (table_rows (main faulty_world
      [(''broken'', with_years 2025 2027 BASE_CONFIG),
       (''baseline'', with_years 2025 2027 BASE_CONFIG)])) = 3
   \<and> list_all (\<lambda>row. map_of row ''scenario'' = Some (PStr ''baseline''))
       (table_rows (main faulty_world
          [(''broken'', with_years 2025 2027 BASE_CONFIG),
           (''baseline'', with_years 2025 2027 BASE_CONFIG)]))
   \<and> list_ex (names ''broken'')
       (diagnostics (main faulty_world
          [(''broken'', with_years 2025 2027 BASE_CONFIG),
           (''baseline'', with_years 2025 2027 BASE_CONFIG)]))"
proof -
  let ?cfg = "with_years 2025 2027 BASE_CONFIG"
  let ?scs = "[(''broken'', ?cfg), (''baseline'', ?cfg)]"
  have d: "distinct (map fst ?scs)" by simp
  note t = comparison_table_is_labelled_and_complete [OF d, of faulty_world]
  have broken: "contribution faulty_world (''broken'', ?cfg) = []"
    by (simp add: contribution_def broken_run_evaluated)
  from baseline_run_evaluated obtain results written df where
    run: "run_simulation_scenario faulty_world ''baseline'' ?cfg = Inr (Return results, written)"
    and df: "annual_summary results = Some df"
    and year: "map_of df ''year'' = Some [PInt 2025, PInt 2026, PInt 2027]"
    and first: "\<exists>rest. df = (''year'', [PInt 2025, PInt 2026, PInt 2027]) # rest"
    by (auto split: sum.splits prod.splits run_result.splits)
  from first have n: "nrows df = 3"
    by (auto simp: nrows_def)
  have base: "contribution faulty_world (''baseline'', ?cfg) = rows_of (with_scenario ''baseline'' df)"
    by (simp add: contribution_def run df)
  have rows: "table_rows (main faulty_world ?scs) = rows_of (with_scenario ''baseline'' df)"
    using t broken base by simp
  have "length (table_rows (main faulty_world ?scs)) = 3"
    by (simp add: rows rows_of_def nrows_with_scenario n)
  moreover have "list_all (\<lambda>row. map_of row ''scenario'' = Some (PStr ''baseline''))
      (table_rows (main faulty_world ?scs))"
    using t base unfolding rows by (auto simp: list_all_iff)
  moreover have "list_ex (names ''broken'') (diagnostics (main faulty_world ?scs))"
    using t broken by (auto simp: list_ex_iff)
  ultimately show ?thesis by blast
qed


section \<open>Claim C8\<close>

text \<open>
  C8 fails on the code for the population and the GDP per capita. In the run below every
  entry of the two columns is missing, and the key metrics report the texts \<open>nan\<close> and
  \<open>$nan\<close> for them, where the metrics that the code guards with \<^verbatim>\<open>pd.notna\<close>
  report \<open>N/A\<close>. The same holds, whatever the rendering of floats, for the summary of a
  record that has only its year.
\<close>

theorem final_population_is_not_guarded:
  "(case run_simulation_scenario quiet_world ''baseline'' missing_population_config of
      Inr (Return results, written) \<Rightarrow>
        map_option (\<lambda>df. (column df ''total_population'', column df ''gdp_per_capita''))
          (annual_summary results) = Some ([PNaN], [PNaN]) \<and>
        map_option (\<lambda>metrics. (map_of metrics ''Final Population'',
                               map_of metrics ''Final GDP per Capita'',
                               map_of metrics ''Avg Rice Production''))
          (key_metrics results) = Some (Some ''nan'', Some ''$nan'', Some ''N/A'')
    | other \<Rightarrow> False)
   \<and> bnd (aggregate [PDict [(''year'', PInt 2025)]])
         (\<lambda>d. bnd (DataFrame d) (key_metrics_of fmt)) =
       Inr [(''Final Population'', ''nan''), (''Final GDP per Capita'', ''$nan''),
            (''Final Stunting Rate'', ''N/A''), (''Final Wasting Rate'', ''N/A''),
            (''Avg Energy Intake (Final Year)'', ''N/A''),
            (''Avg Rice Production'', ''N/A'')]"
proof -
  have "(case run_simulation_scenario quiet_world ''baseline'' missing_population_config of
      Inr (Return results, written) \<Rightarrow>
        map_option (\<lambda>df. (column df ''total_population'', column df ''gdp_per_capita''))
          (annual_summary results) = Some ([PNaN], [PNaN]) \<and>
        map_option (\<lambda>metrics. (map_of metrics ''Final Population'',
                               map_of metrics ''Final GDP per Capita'',
                               map_of metrics ''Avg Rice Production''))
          (key_metrics results) = Some (Some ''nan'', Some ''$nan'', Some ''N/A'')
    | other \<Rightarrow> False)"
    by code_simp 
  moreover have "bnd (aggregate [PDict [(''year'', PInt 2025)]])
         (\<lambda>d. bnd (DataFrame d) (key_metrics_of fmt)) =
       Inr [(''Final Population'', ''nan''), (''Final GDP per Capita'', ''$nan''),
            (''Final Stunting Rate'', ''N/A''), (''Final Wasting Rate'', ''N/A''),
            (''Avg Energy Intake (Final Year)'', ''N/A''),
            (''Avg Rice Production'', ''N/A'')]"
    by (simp add: aggregate_def aggregate_column_def indicator_paths_def DataFrame_def
          key_metrics_of_def df_empty_def nrows_def row_at_def row_get_def render_def
          render_or_na_def series_mean_def)
  ultimately show ?thesis by blast
qed

section \<open>Claim C9\<close>

text \<open>
  C9 fails on the code. On the inputs of the model's own example, the producer price of
  rice lies below the world price less the export cost, the export branch is taken, and
  the method raises NameError on \<^verbatim>\<open>market_supply\<close>.
\<close>

theorem market_example_raises_name_error:
  "bnd (MarketDynamicsModel example_market_config)
     (\<lambda>m. market_simulate m 2025 example_prod_data example_socio_state example_policy_eff) =
   Inl NameError"
  by code_simp


end
